theory Spec2Isabelle
  imports Main
begin

section \<open>Data model\<close>

text \<open>
  The three handlers of the worker (single upload, expiry cleanup, random retrieval) are
  embedded as functions from a request and a description of what the external services
  answer to the response together with the sequence of service calls the handler makes.
  The calls to the object store, the metadata store, the transcoder, the inspection of the
  bytes, the reading of the form and \<^verbatim>\<open>fetch\<close> may reject, which takes the handler to
  its \<^verbatim>\<open>catch\<close>, and so does the conversion of an invalid expiry date to a string;
  the pure helper functions are taken to return.
  JavaScript strings are \<^typ>\<open>string\<close>, a value that may be \<^verbatim>\<open>null\<close> or
  \<^verbatim>\<open>undefined\<close> is an \<^typ>\<open>'a option\<close>, and a string is truthy when it is not empty.
\<close>

text \<open>
  The three slots \<^verbatim>\<open>original\<close>, \<^verbatim>\<open>webp\<close>, \<^verbatim>\<open>avif\<close> occur in
  \<^verbatim>\<open>ImageMetadata.paths\<close> (storage keys), in \<^verbatim>\<open>ImageMetadata.sizes\<close> (byte counts)
  and in the result of \<^verbatim>\<open>buildImageUrls\<close> (URLs).
\<close>

record 'a variants =
  original :: 'a
  webp :: 'a
  avif :: 'a

text \<open>
  The result of \<^verbatim>\<open>ImageProcessor.getImageInfo\<close>, and \<^verbatim>\<open>ImageMetadata\<close> of
  \<^verbatim>\<open>types.ts\<close> with the fields the upload handler fills in (\<^verbatim>\<open>upload.ts\<close>, lines
  156-172), which repeat those four. Timestamps are kept as milliseconds since the epoch
  instead of ISO strings.
\<close>

record image_info =
  format :: string
  width :: nat
  height :: nat
  orientation :: string

record image_metadata = image_info +
  imageId :: string
  originalName :: string
  uploadTime :: int
  expiryTime :: "int option"
  tags :: "string list"
  paths :: "string variants"
  sizes :: "nat variants"

text \<open>
  \<^verbatim>\<open>errorResponse(message, status?)\<close> and \<^verbatim>\<open>successResponse(data)\<close> of
  \<^verbatim>\<open>utils/response\<close>. The status is \<open>None\<close> where the handler passes no status and
  leaves it to the default of \<^verbatim>\<open>errorResponse\<close>.
\<close>

datatype 'a response =
  ErrorResponse string "nat option"
  | SuccessResponse 'a

definition truthy :: "string \<Rightarrow> bool" where
  "truthy s = (s \<noteq> [])"

section \<open>Cleanup of expired images\<close>

text \<open>
  \<^verbatim>\<open>cleanupHandler\<close>. The answers of the services are
  \<^item> \<open>expiredImages\<close>: the list \<^verbatim>\<open>metadata.getExpiredImages()\<close> resolves to, or
    \<open>None\<close> when it rejects;
  \<^item> \<open>deleteManyOk i\<close>, \<open>deleteImageOk i\<close>: whether \<^verbatim>\<open>storage.deleteMany\<close> and
    \<^verbatim>\<open>metadata.deleteImage\<close> resolve in iteration \<open>i\<close> of the loop (they reject otherwise).
\<close>

record cleanup_world =
  expiredImages :: "image_metadata list option"
  deleteManyOk :: "nat \<Rightarrow> bool"
  deleteImageOk :: "nat \<Rightarrow> bool"

datatype cleanup_event =
  DeleteMany "string list"
  | DeleteImage string

definition keysToDelete :: "image_metadata \<Rightarrow> string list" where
  "keysToDelete img =
     [original (paths img)]
     @ (if truthy (webp (paths img)) then [webp (paths img)] else [])
     @ (if truthy (avif (paths img)) then [avif (paths img)] else [])"

text \<open>
  The body of the \<^verbatim>\<open>for\<close> loop, from iteration \<open>i\<close> on: the running
  \<^verbatim>\<open>deletedCount\<close> and the calls made so far are threaded through. A rejected call
  jumps to the \<^verbatim>\<open>catch\<close> inside the loop, which only logs.
\<close>

fun cleanupLoop ::
  "cleanup_world \<Rightarrow> nat \<Rightarrow> image_metadata list \<Rightarrow> nat \<Rightarrow> cleanup_event list
     \<Rightarrow> nat \<times> cleanup_event list" where
  "cleanupLoop w i [] deletedCount tr = (deletedCount, tr)"
| "cleanupLoop w i (img # rest) deletedCount tr =
     (let keys = keysToDelete img in
      if \<not> deleteManyOk w i then
        cleanupLoop w (Suc i) rest deletedCount (tr @ [DeleteMany keys])
      else if \<not> deleteImageOk w i then
        cleanupLoop w (Suc i) rest deletedCount
          (tr @ [DeleteMany keys, DeleteImage (imageId img)])
      else
        cleanupLoop w (Suc i) rest (Suc deletedCount)
          (tr @ [DeleteMany keys, DeleteImage (imageId img)]))"

definition cleanupHandler :: "cleanup_world \<Rightarrow> nat response \<times> cleanup_event list" where
  "cleanupHandler w =
     (case expiredImages w of
        None \<Rightarrow> (ErrorResponse ''Cleanup failed'' None, [])
      | Some images \<Rightarrow>
          (let (deletedCount, tr) = cleanupLoop w 0 images 0 [] in
           (SuccessResponse deletedCount, tr)))"

text \<open>What one iteration of the sweep does to the stores, and whether it counts.\<close>

definition sweepCalls :: "cleanup_world \<Rightarrow> nat \<Rightarrow> image_metadata \<Rightarrow> cleanup_event list" where
  "sweepCalls w i img =
     DeleteMany (keysToDelete img)
     # (if deleteManyOk w i then [DeleteImage (imageId img)] else [])"

definition sweepSucceeds :: "cleanup_world \<Rightarrow> nat \<Rightarrow> bool" where
  "sweepSucceeds w i = (deleteManyOk w i \<and> deleteImageOk w i)"

section \<open>Services used by the handlers\<close>

text \<open>
  The options record the handlers pass to \<^verbatim>\<open>buildImageUrls\<close> and read with
  \<^verbatim>\<open>!== false\<close>; an absent flag is \<open>None\<close>. Other fields of the options are not read
  by the handlers.
\<close>

record compression_options =
  generateWebp :: "bool option"
  generateAvif :: "bool option"

text \<open>
  Helper functions the handlers import from modules that are not part of the sources at
  hand (\<^verbatim>\<open>utils/validation\<close>, \<^verbatim>\<open>utils/imageTransform\<close>,
  \<^verbatim>\<open>services/imageProcessor\<close>, \<^verbatim>\<open>services/storage\<close>), and the binding
  \<^verbatim>\<open>R2_PUBLIC_URL\<close>. They are parameters of the handlers: every theorem holds for any
  choice of them. \<open>clientAccepts h m\<close> says whether the \<^verbatim>\<open>Accept\<close> header \<open>h\<close> lists
  the media type \<open>m\<close>.
\<close>

record services =
  parseTags :: "string option \<Rightarrow> string list"
  parseNumber :: "string option \<Rightarrow> int \<Rightarrow> int"
  isSupportedFormat :: "string \<Rightarrow> bool"
  getContentType :: "string \<Rightarrow> string"
  generatePaths :: "string \<Rightarrow> string \<Rightarrow> string \<Rightarrow> string variants"
  buildImageUrls :: "string \<Rightarrow> image_metadata \<Rightarrow> compression_options \<Rightarrow> string variants"
  isMobileDevice :: "string option \<Rightarrow> bool"
  clientAccepts :: "string option \<Rightarrow> string \<Rightarrow> bool"
  R2_PUBLIC_URL :: string

section \<open>Upload of a single image\<close>

definition MAX_FILE_SIZE :: nat where
  "MAX_FILE_SIZE = 70 * 1024 * 1024"

definition CLOUDFLARE_IMAGES_MAX_BYTES :: nat where
  "CLOUDFLARE_IMAGES_MAX_BYTES = 10 * 1024 * 1024"

text \<open>
  JavaScript's \<^verbatim>\<open>parseInt(s, 10)\<close>: leading white space is skipped, a sign is read,
  then the longest run of decimal digits; \<open>None\<close> is \<^verbatim>\<open>NaN\<close> (no digit). The value
  is kept exact; the handler only compares it with \<open>MAX_FILE_SIZE\<close>, which rounding to a
  double does not change.
\<close>

definition isWhiteSpace :: "char \<Rightarrow> bool" where
  "isWhiteSpace c = ((of_char c :: nat) \<in> {9, 10, 11, 12, 13, 32, 160})"

definition isDigit :: "char \<Rightarrow> bool" where
  "isDigit c = (48 \<le> (of_char c :: nat) \<and> (of_char c :: nat) \<le> 57)"

definition digitsValue :: "string \<Rightarrow> nat" where
  "digitsValue ds = foldl (\<lambda>n c. 10 * n + (of_char c - 48)) 0 ds"

definition parseInt :: "string \<Rightarrow> int option" where
  "parseInt s =
     (let t = dropWhile isWhiteSpace s;
          negative = (case t of [] \<Rightarrow> False | c # _ \<Rightarrow> c = CHR ''-'');
          u = (case t of [] \<Rightarrow> []
               | c # r \<Rightarrow> if c = CHR ''-'' \<or> c = CHR ''+'' then r else t);
          ds = takeWhile isDigit u
      in if ds = [] then None
         else Some (if negative then - int (digitsValue ds) else int (digitsValue ds)))"

text \<open>The request: the \<^verbatim>\<open>Content-Length\<close> header and the multipart form.\<close>

record upload_file =
  fileName :: string
  fileSize :: nat

datatype form_entry =
  Missing
  | Text string
  | File upload_file

record upload_form =
  imageField :: form_entry
  tagsField :: "string option"
  expiryMinutesField :: "string option"
  compressionOptions :: compression_options

record upload_request =
  contentLength :: "string option"
  formData :: "upload_form option"

text \<open>
  What the transcoder resolves to: \<^verbatim>\<open>{ webp?: {data, size}, avif?: {data, size} }\<close>.
\<close>

record compressed =
  compressedData :: string
  compressedSize :: nat

record compression_result =
  webpOut :: "compressed option"
  avifOut :: "compressed option"

text \<open>
  The answers of the effectful calls of one upload, each made at most once:
  \<^item> \<open>formData req\<close> (above) is \<open>None\<close> when \<^verbatim>\<open>c.req.formData()\<close> rejects;
  \<^item> \<open>imageInfo\<close>: what \<^verbatim>\<open>ImageProcessor.getImageInfo\<close> resolves to on the bytes of
    the file, \<open>None\<close> when it, or the reading of the bytes before it, rejects;
  \<^item> \<open>generatedId\<close>: the value of \<^verbatim>\<open>generateImageId()\<close>;
  \<^item> \<open>imagesBinding\<close>: whether \<^verbatim>\<open>c.env.IMAGES\<close> is set;
  \<^item> \<open>compressResult\<close>: what \<^verbatim>\<open>compression.compress\<close> resolves to, \<open>None\<close> when it
    rejects;
  \<^item> \<open>originalUploadOk\<close>, \<open>webpUploadOk\<close>, \<open>avifUploadOk\<close>: whether the
    \<^verbatim>\<open>storage.upload\<close> of that object resolves;
  \<^item> \<open>saveImageOk\<close>: whether \<^verbatim>\<open>metadata.saveImage\<close> resolves;
  \<^item> \<open>clockExpiry\<close>, \<open>clockUpload\<close>: the two readings of the clock.
\<close>

record upload_world =
  imageInfo :: "image_info option"
  generatedId :: string
  imagesBinding :: bool
  compressResult :: "compression_result option"
  originalUploadOk :: bool
  webpUploadOk :: bool
  avifUploadOk :: bool
  saveImageOk :: bool
  clockExpiry :: int
  clockUpload :: int

text \<open>
  The calls of the handler in program order. \<open>UploadStart k\<close> is the call
  \<^verbatim>\<open>storage.upload(k, ...)\<close>, \<open>UploadDone k\<close> the point where the handler has awaited
  it and it has resolved; likewise for the transcoder. The two derived writes are awaited
  together (\<^verbatim>\<open>Promise.all\<close>): their \<open>UploadDone\<close> events stand for the point where
  both have resolved, and are listed webp first. \<open>SaveImage m\<close> is the call
  \<^verbatim>\<open>metadata.saveImage(m)\<close>, \<open>InvalidateCaches\<close> the cache invalidation handed to
  \<^verbatim>\<open>waitUntil\<close>. An awaited call that rejects leaves no further event: control passes
  to the outer \<^verbatim>\<open>catch\<close>. The bytes and content types of the writes are not recorded.
\<close>

datatype upload_event =
  ReadFormData
  | UploadStart string
  | UploadDone string
  | CompressStart
  | CompressDone
  | SaveImage image_metadata
  | InvalidateCaches

record upload_result =
  resultId :: string
  resultStatus :: string
  resultUrls :: "string variants"
  resultOrientation :: string
  resultTags :: "string list"
  resultSizes :: "nat variants"
  resultExpiryTime :: "int option"
  resultFormat :: string

definition declaredTooLarge :: "string option \<Rightarrow> bool" where
  "declaredTooLarge header =
     (case header of
        None \<Rightarrow> False
      | Some s \<Rightarrow>
          truthy s \<and>
          (case parseInt s of None \<Rightarrow> False | Some n \<Rightarrow> n > int MAX_FILE_SIZE))"

text \<open>
  Lines 76-146 of \<^verbatim>\<open>upload.ts\<close>: the writes to the object store and the transcoding,
  one definition for each of the three branches. The result is \<open>None\<close> when an awaited
  call rejects, otherwise the final \<^verbatim>\<open>paths\<close>, \<^verbatim>\<open>webpSize\<close> and
  \<^verbatim>\<open>avifSize\<close>. \<open>paths0\<close> is \<^verbatim>\<open>paths\<close> as initialised in line 76; the write of
  the original has been started (line 87) when a branch is entered.
\<close>

definition passThroughBranch ::
  "upload_world \<Rightarrow> upload_file \<Rightarrow> string \<Rightarrow> string variants
     \<Rightarrow> (string variants \<times> nat \<times> nat) option \<times> upload_event list" where
  "passThroughBranch w file fmt paths0 =
     (let isWebp = (fmt = ''webp'');
          isAvif = (fmt = ''avif'')
      in
      if \<not> originalUploadOk w then (None, [])
      else
        (Some (paths0\<lparr>webp := (if isWebp then original paths0 else webp paths0),
                      avif := (if isAvif then original paths0 else avif paths0)\<rparr>,
               (if isWebp then fileSize file else 0),
               (if isAvif then fileSize file else 0)),
         [UploadDone (original paths0)]))"

definition compressBranch ::
  "upload_world \<Rightarrow> compression_options \<Rightarrow> string variants \<Rightarrow> string variants
     \<Rightarrow> (string variants \<times> nat \<times> nat) option \<times> upload_event list" where
  "compressBranch w opts generatedPaths paths0 =
     (let wantsWebp = (generateWebp opts \<noteq> Some False);
          wantsAvif = (generateAvif opts \<noteq> Some False)
      in
      if \<not> originalUploadOk w then (None, [CompressStart])
      else
        (case compressResult w of
           None \<Rightarrow> (None, [CompressStart, UploadDone (original paths0)])
         | Some compressionResult \<Rightarrow>
             (let webpJob = (if wantsWebp then webpOut compressionResult else None);
                  avifJob = (if wantsAvif then avifOut compressionResult else None);
                  paths1 = paths0
                    \<lparr>webp := (case webpJob of Some _ \<Rightarrow> webp generatedPaths
                              | None \<Rightarrow> webp paths0),
                     avif := (case avifJob of Some _ \<Rightarrow> avif generatedPaths
                              | None \<Rightarrow> avif paths0)\<rparr>;
                  tr = [CompressStart, UploadDone (original paths0), CompressDone]
                    @ (case webpJob of Some _ \<Rightarrow> [UploadStart (webp paths1)] | None \<Rightarrow> [])
                    @ (case avifJob of Some _ \<Rightarrow> [UploadStart (avif paths1)] | None \<Rightarrow> [])
              in
              if (webpJob \<noteq> None \<and> \<not> webpUploadOk w) \<or> (avifJob \<noteq> None \<and> \<not> avifUploadOk w)
              then (None, tr)
              else
                (let webpSize = (case webpJob of Some c \<Rightarrow> compressedSize c | None \<Rightarrow> 0);
                     avifSize = (case avifJob of Some c \<Rightarrow> compressedSize c | None \<Rightarrow> 0);
                     tr' = tr
                       @ (case webpJob of Some _ \<Rightarrow> [UploadDone (webp paths1)] | None \<Rightarrow> [])
                       @ (case avifJob of Some _ \<Rightarrow> [UploadDone (avif paths1)] | None \<Rightarrow> []);
                     paths2 = paths1
                       \<lparr>webp := (if wantsWebp \<and> \<not> truthy (webp paths1)
                                 then original paths1 else webp paths1),
                        avif := (if wantsAvif \<and> \<not> truthy (avif paths1)
                                 then original paths1 else avif paths1)\<rparr>
                 in (Some (paths2, webpSize, avifSize), tr')))))"

definition markerBranch ::
  "upload_world \<Rightarrow> compression_options \<Rightarrow> string variants
     \<Rightarrow> (string variants \<times> nat \<times> nat) option \<times> upload_event list" where
  "markerBranch w opts paths0 =
     (if \<not> originalUploadOk w then (None, [])
      else
        (let wantsWebp = (generateWebp opts \<noteq> Some False);
             wantsAvif = (generateAvif opts \<noteq> Some False)
         in
         (Some (paths0\<lparr>webp := (if wantsWebp then original paths0 else webp paths0),
                       avif := (if wantsAvif then original paths0 else avif paths0)\<rparr>,
                0, 0),
          [UploadDone (original paths0)])))"

definition storeVariants ::
  "upload_world \<Rightarrow> upload_file \<Rightarrow> string \<Rightarrow> compression_options \<Rightarrow> string variants
     \<Rightarrow> (string variants \<times> nat \<times> nat) option \<times> upload_event list" where
  "storeVariants w file fmt opts generatedPaths =
     (let paths0 = generatedPaths\<lparr>webp := [], avif := []\<rparr>;
          isGif = (fmt = ''gif'');
          isWebp = (fmt = ''webp'');
          isAvif = (fmt = ''avif'');
          shouldSkipProcessing = (isGif \<or> isWebp \<or> isAvif);
          (stored, tr) =
            (if shouldSkipProcessing then passThroughBranch w file fmt paths0
             else if imagesBinding w \<and> fileSize file \<le> CLOUDFLARE_IMAGES_MAX_BYTES
             then compressBranch w opts generatedPaths paths0
             else markerBranch w opts paths0)
      in (stored, UploadStart (original paths0) # tr))"

text \<open>
  Lines 148-153: the expiry time. A \<^verbatim>\<open>Date\<close> holds a time value of at most
  \<open>MAX_TIME_VALUE\<close> milliseconds in absolute value; beyond that the date is invalid and
  \<^verbatim>\<open>toISOString()\<close> throws \<^verbatim>\<open>RangeError\<close>, which takes the handler to the outer
  \<^verbatim>\<open>catch\<close>. The outer \<open>None\<close> is that throw, \<open>Some None\<close> is no expiry. The result
  of \<^verbatim>\<open>parseNumber\<close> is taken to be an integer; the products and the sum are exact in
  doubles up to the bound, and rounding beyond it does not change the comparison.
\<close>

definition MAX_TIME_VALUE :: int where
  "MAX_TIME_VALUE = 8640000000000000"

definition computeExpiry :: "services \<Rightarrow> upload_world \<Rightarrow> upload_form \<Rightarrow> int option option" where
  "computeExpiry sv w form =
     (let expiryMinutes = parseNumber sv (expiryMinutesField form) 0 in
      if expiryMinutes > 0 then
        (let expiry = clockExpiry w + expiryMinutes * 60 * 1000 in
         if \<bar>expiry\<bar> > MAX_TIME_VALUE then None else Some (Some expiry))
      else Some None)"

text \<open>
  Lines 155-172: the record that is saved. The upload time is the current time, which is a
  valid date.
\<close>

definition buildMetadata ::
  "services \<Rightarrow> upload_world \<Rightarrow> upload_form \<Rightarrow> upload_file \<Rightarrow> image_info
     \<Rightarrow> string variants \<Rightarrow> nat \<Rightarrow> nat \<Rightarrow> int option \<Rightarrow> image_metadata" where
  "buildMetadata sv w form file info paths' webpSize avifSize expiryTime' =
     (let tags = parseTags sv (tagsField form)
      in \<lparr>format = format info, width = width info, height = height info,
          orientation = orientation info,
          imageId = generatedId w, originalName = fileName file,
          uploadTime = clockUpload w, expiryTime = expiryTime', tags = tags,
          paths = paths',
          sizes = \<lparr>original = fileSize file, webp = webpSize, avif = avifSize\<rparr>\<rparr>)"

text \<open>
  Lines 176-196: the result sent back. Its identifier, orientation, tags, expiry time and
  format are the values that were put into the record.
\<close>

definition buildResult ::
  "services \<Rightarrow> compression_options \<Rightarrow> image_metadata \<Rightarrow> upload_result" where
  "buildResult sv opts imageMetadata =
     (let urls = buildImageUrls sv (R2_PUBLIC_URL sv) imageMetadata opts
      in \<lparr>resultId = imageId imageMetadata, resultStatus = ''success'',
          resultUrls = \<lparr>original = original urls, webp = webp urls, avif = avif urls\<rparr>,
          resultOrientation = orientation imageMetadata,
          resultTags = tags imageMetadata,
          resultSizes = sizes imageMetadata,
          resultExpiryTime = expiryTime imageMetadata,
          resultFormat = format imageMetadata\<rparr>)"

text \<open>
  Lines 56-207: the part of the handler after the form has been read and the file has
  passed the size checks.
\<close>

definition storeImage ::
  "services \<Rightarrow> upload_world \<Rightarrow> upload_form \<Rightarrow> upload_file
     \<Rightarrow> upload_result response \<times> upload_event list" where
  "storeImage sv w form file =
     (case imageInfo w of
        None \<Rightarrow> (ErrorResponse ''Upload failed'' None, [])
      | Some info \<Rightarrow>
          if \<not> isSupportedFormat sv (format info)
          then (ErrorResponse (''Unsupported format: '' @ format info) None, [])
          else
            (let opts = compressionOptions form;
                 generatedPaths =
                   generatePaths sv (generatedId w) (orientation info) (format info);
                 (stored, tr) = storeVariants w file (format info) opts generatedPaths
             in
             case stored of
               None \<Rightarrow> (ErrorResponse ''Upload failed'' None, tr)
             | Some (paths', webpSize, avifSize) \<Rightarrow>
                 (case computeExpiry sv w form of
                    None \<Rightarrow> (ErrorResponse ''Upload failed'' None, tr)
                  | Some expiryTime' \<Rightarrow>
                      (let imageMetadata =
                             buildMetadata sv w form file info paths' webpSize avifSize
                               expiryTime'
                       in
                       if \<not> saveImageOk w
                       then (ErrorResponse ''Upload failed'' None,
                             tr @ [SaveImage imageMetadata])
                       else (SuccessResponse (buildResult sv opts imageMetadata),
                             tr @ [SaveImage imageMetadata, InvalidateCaches])))))"

definition uploadSingleHandler ::
  "services \<Rightarrow> upload_world \<Rightarrow> upload_request
     \<Rightarrow> upload_result response \<times> upload_event list" where
  "uploadSingleHandler sv w req =
     (if declaredTooLarge (contentLength req)
      then (ErrorResponse ''File too large. Maximum size is 70MB'' (Some 413), [])
      else
        (case formData req of
           None \<Rightarrow>
             (ErrorResponse ''Failed to parse form data. File may be too large or corrupted.''
                (Some 400),
              [ReadFormData])
         | Some form \<Rightarrow>
             (case imageField form of
                File file \<Rightarrow>
                  if fileSize file > MAX_FILE_SIZE
                  then (ErrorResponse ''File too large. Maximum size is 70MB'' (Some 413),
                        [ReadFormData])
                  else
                    (let (resp, tr) = storeImage sv w form file in (resp, ReadFormData # tr))
              | _ \<Rightarrow> (ErrorResponse ''No file provided'' None, [ReadFormData]))))"

text \<open>Readings of a sequence of calls.\<close>

definition uploadsStarted :: "upload_event list \<Rightarrow> string list" where
  "uploadsStarted tr = concat (map (\<lambda>e. case e of UploadStart k \<Rightarrow> [k] | _ \<Rightarrow> []) tr)"

definition savedRecords :: "upload_event list \<Rightarrow> image_metadata list" where
  "savedRecords tr = concat (map (\<lambda>e. case e of SaveImage m \<Rightarrow> [m] | _ \<Rightarrow> []) tr)"

definition transcoderInvoked :: "upload_event list \<Rightarrow> bool" where
  "transcoderInvoked tr = (CompressStart \<in> set tr)"

text \<open>
  An upload that gets past the checks at the head of the handler: the declared length is
  not above the maximum, the form parses and holds a file of at most the maximum size, and
  the inspection of the bytes finds a supported format.
\<close>

definition accepted ::
  "services \<Rightarrow> upload_world \<Rightarrow> upload_request \<Rightarrow> upload_form \<Rightarrow> upload_file \<Rightarrow> image_info
     \<Rightarrow> bool" where
  "accepted sv w req form file info =
     (\<not> declaredTooLarge (contentLength req) \<and> formData req = Some form \<and>
      imageField form = File file \<and> fileSize file \<le> MAX_FILE_SIZE \<and>
      imageInfo w = Some info \<and> isSupportedFormat sv (format info))"

definition originalKey :: "services \<Rightarrow> upload_world \<Rightarrow> image_info \<Rightarrow> string" where
  "originalKey sv w info =
     original (generatePaths sv (generatedId w) (orientation info) (format info))"

definition passThrough :: "string \<Rightarrow> bool" where
  "passThrough fmt = (fmt = ''gif'' \<or> fmt = ''webp'' \<or> fmt = ''avif'')"

definition wanted :: "bool option \<Rightarrow> bool" where
  "wanted flag = (flag \<noteq> Some False)"

section \<open>Retrieval of a random image\<close>

record random_request =
  tagsParam :: "string option"
  excludeParam :: "string option"
  orientationParam :: "string option"
  formatParam :: "string option"
  userAgent :: "string option"
  acceptHeader :: "string option"

text \<open>The argument of \<^verbatim>\<open>metadata.getRandomImage\<close>.\<close>

record random_filter =
  filterTags :: "string list option"
  filterExclude :: "string list option"
  filterOrientation :: string

text \<open>The fields of the \<^verbatim>\<open>fetch\<close> response the handler reads.\<close>

record upstream_response =
  upstreamOk :: bool
  upstreamBody :: "string option"
  upstreamContentType :: "string option"

text \<open>
  The answers of the effectful calls of one retrieval, each made at most once; the outer
  \<open>None\<close> is a rejected call:
  \<^item> \<open>randomImage f\<close>: the record \<^verbatim>\<open>metadata.getRandomImage(f)\<close> resolves to, or
    \<^verbatim>\<open>null\<close>;
  \<^item> \<open>storageGet k\<close>: the body of the object \<^verbatim>\<open>storage.get(k)\<close> resolves to, or
    \<^verbatim>\<open>null\<close>;
  \<^item> \<open>fetchUpstream u\<close>: the response of \<^verbatim>\<open>fetch(u)\<close>.
\<close>

record random_world =
  randomImage :: "random_filter \<Rightarrow> image_metadata option option"
  storageGet :: "string \<Rightarrow> string option option"
  fetchUpstream :: "string \<Rightarrow> upstream_response option"

datatype random_event =
  GetRandomImage random_filter
  | StorageGet string
  | Fetch string

text \<open>
  The image response: body and \<^verbatim>\<open>Content-Type\<close>. Its other two headers are the same
  constants on both serving paths.
\<close>

record image_response =
  responseBody :: string
  responseContentType :: string

datatype target_format = Original | Webp | Avif

text \<open>
  Modelled from the spec: \<^verbatim>\<open>getBestFormat\<close> of \<^verbatim>\<open>utils/validation\<close> is not among the
  sources. The spec has it "derive the best mutually supported encoding from the capability
  signal, preferring avif over webp over original when supported"; the capability signal is
  the \<^verbatim>\<open>Accept\<close> header the handler passes. Every function from headers to target formats
  has this form for some \<open>clientAccepts\<close>.
\<close>

definition getBestFormat :: "services \<Rightarrow> string option \<Rightarrow> target_format" where
  "getBestFormat sv header =
     (if clientAccepts sv header ''image/avif'' then Avif
      else if clientAccepts sv header ''image/webp'' then Webp
      else Original)"

text \<open>Lines 26-42: the filter handed to the metadata store.\<close>

definition requestFilter :: "services \<Rightarrow> random_request \<Rightarrow> random_filter" where
  "requestFilter sv req =
     (let tags = parseTags sv (tagsParam req);
          exclude = parseTags sv (excludeParam req);
          detected = (if isMobileDevice sv (userAgent req) then ''portrait'' else ''landscape'');
          orient =
            (case orientationParam req of
               None \<Rightarrow> detected
             | Some p \<Rightarrow> if p = ''landscape'' \<or> p = ''portrait'' then p else detected)
      in \<lparr>filterTags = (if length tags > 0 then Some tags else None),
          filterExclude = (if length exclude > 0 then Some exclude else None),
          filterOrientation = orient\<rparr>)"

text \<open>Lines 48-56: the URLs of the record.\<close>

definition servedUrls :: "services \<Rightarrow> image_metadata \<Rightarrow> string variants" where
  "servedUrls sv img =
     buildImageUrls sv (R2_PUBLIC_URL sv) img
       \<lparr>generateWebp =
          Some (truthy (webp (paths img)) \<or> original (sizes img) > CLOUDFLARE_IMAGES_MAX_BYTES),
        generateAvif =
          Some (truthy (avif (paths img)) \<or> original (sizes img) > CLOUDFLARE_IMAGES_MAX_BYTES)\<rparr>"

text \<open>
  Lines 58-109: what to serve. \<open>r2Key\<close> is \<open>None\<close> for \<^verbatim>\<open>null\<close>.
\<close>

record serving_plan =
  targetUrl :: string
  r2Key :: "string option"
  contentTypeFallback :: string

definition negotiateFormat :: "services \<Rightarrow> random_request \<Rightarrow> target_format" where
  "negotiateFormat sv req =
     (if formatParam req = Some ''webp'' then Webp
      else if formatParam req = Some ''avif'' then Avif
      else if formatParam req = Some ''original'' then Original
      else getBestFormat sv (acceptHeader req))"

definition resolveSlot ::
  "services \<Rightarrow> image_metadata \<Rightarrow> string variants \<Rightarrow> target_format \<Rightarrow> serving_plan" where
  "resolveSlot sv img urls fmt =
     (case fmt of
        Avif \<Rightarrow>
          \<lparr>targetUrl = (if truthy (avif urls) then avif urls else original urls),
           r2Key =
             (if \<not> truthy (avif urls) then Some (original (paths img))
              else if truthy (avif (paths img)) then
                (let isMarker =
                       (avif (paths img) = original (paths img) \<and> format img \<noteq> ''avif'')
                 in if isMarker then None else Some (avif (paths img)))
              else None),
           contentTypeFallback =
             (if truthy (avif urls) then ''image/avif'' else getContentType sv (format img))\<rparr>
      | Webp \<Rightarrow>
          \<lparr>targetUrl = (if truthy (webp urls) then webp urls else original urls),
           r2Key =
             (if \<not> truthy (webp urls) then Some (original (paths img))
              else if truthy (webp (paths img)) then
                (let isMarker =
                       (webp (paths img) = original (paths img) \<and> format img \<noteq> ''webp'')
                 in if isMarker then None else Some (webp (paths img)))
              else None),
           contentTypeFallback =
             (if truthy (webp urls) then ''image/webp'' else getContentType sv (format img))\<rparr>
      | Original \<Rightarrow>
          \<lparr>targetUrl = original urls,
           r2Key = Some (original (paths img)),
           contentTypeFallback = getContentType sv (format img)\<rparr>)"

definition servingPlan ::
  "services \<Rightarrow> random_request \<Rightarrow> image_metadata \<Rightarrow> string variants \<Rightarrow> serving_plan" where
  "servingPlan sv req img urls =
     (if format img = ''gif''
      then \<lparr>targetUrl = original urls,
            r2Key = Some (original (paths img)),
            contentTypeFallback = ''image/gif''\<rparr>
      else resolveSlot sv img urls (negotiateFormat sv req))"

text \<open>The key the test \<^verbatim>\<open>if (r2Key)\<close> lets through: neither \<^verbatim>\<open>null\<close> nor empty.\<close>

definition directKey :: "serving_plan \<Rightarrow> string option" where
  "directKey plan =
     (case r2Key plan of None \<Rightarrow> None | Some k \<Rightarrow> if truthy k then Some k else None)"

text \<open>
  Lines 111-142: serve from the object store, or proxy the transformed response. The
  proxied body is read only where the guard has found it present.
\<close>

definition servePlan ::
  "random_world \<Rightarrow> serving_plan \<Rightarrow> image_response response \<times> random_event list" where
  "servePlan w plan =
     (case directKey plan of
        Some k \<Rightarrow>
          (case storageGet w k of
             None \<Rightarrow> (ErrorResponse ''Failed to get random image'' None, [StorageGet k])
           | Some None \<Rightarrow> (ErrorResponse ''Image file not found'' (Some 404), [StorageGet k])
           | Some (Some body) \<Rightarrow>
               (SuccessResponse
                  \<lparr>responseBody = body, responseContentType = contentTypeFallback plan\<rparr>,
                [StorageGet k]))
      | None \<Rightarrow>
          (case fetchUpstream w (targetUrl plan) of
             None \<Rightarrow> (ErrorResponse ''Failed to get random image'' None, [Fetch (targetUrl plan)])
           | Some upstream \<Rightarrow>
               if \<not> upstreamOk upstream \<or> upstreamBody upstream = None
               then (ErrorResponse ''Image file not found'' (Some 404), [Fetch (targetUrl plan)])
               else
                 (SuccessResponse
                    \<lparr>responseBody = (case upstreamBody upstream of Some body \<Rightarrow> body | None \<Rightarrow> []),
                     responseContentType =
                       (case upstreamContentType upstream of
                          None \<Rightarrow> contentTypeFallback plan
                        | Some ct \<Rightarrow> if truthy ct then ct else contentTypeFallback plan)\<rparr>,
                  [Fetch (targetUrl plan)])))"

definition randomHandler ::
  "services \<Rightarrow> random_world \<Rightarrow> random_request
     \<Rightarrow> image_response response \<times> random_event list" where
  "randomHandler sv w req =
     (let flt = requestFilter sv req in
      case randomImage w flt of
        None \<Rightarrow> (ErrorResponse ''Failed to get random image'' None, [GetRandomImage flt])
      | Some None \<Rightarrow>
          (ErrorResponse ''No images found matching criteria'' (Some 404), [GetRandomImage flt])
      | Some (Some img) \<Rightarrow>
          (let urls = servedUrls sv img;
               plan = servingPlan sv req img urls;
               (resp, tr) = servePlan w plan
           in (resp, GetRandomImage flt # tr)))"

section \<open>Notions used in the statements\<close>

text \<open>
  The storage keys a record refers to: the original, and each derived slot that is not
  empty.
\<close>

definition referencedKeys :: "image_metadata \<Rightarrow> string list" where
  "referencedKeys m = original (paths m) # filter truthy [webp (paths m), avif (paths m)]"

text \<open>
  The expiry time asked for is absent or a valid date: line 152 does not throw.
\<close>

definition expiryInRange :: "services \<Rightarrow> upload_world \<Rightarrow> upload_form \<Rightarrow> bool" where
  "expiryInRange sv w form = (computeExpiry sv w form \<noteq> None)"

text \<open>
  A run of the upload handler in which no service call fails: every write and the save
  resolve, and the transcoder resolves to some result.
\<close>

definition faultFree :: "upload_world \<Rightarrow> bool" where
  "faultFree w =
     (originalUploadOk w \<and> webpUploadOk w \<and> avifUploadOk w \<and> saveImageOk w \<and>
      compressResult w \<noteq> None)"

text \<open>
  On the transcoding path, the encodings that are to be written: wanted by the request and
  produced by the transcoder. \<open>derivedWritesOk\<close> says that each write that is attempted
  resolves.
\<close>

definition webpJob :: "upload_world \<Rightarrow> compression_options \<Rightarrow> compressed option" where
  "webpJob w opts =
     (if wanted (generateWebp opts)
      then (case compressResult w of None \<Rightarrow> None | Some c \<Rightarrow> webpOut c) else None)"

definition avifJob :: "upload_world \<Rightarrow> compression_options \<Rightarrow> compressed option" where
  "avifJob w opts =
     (if wanted (generateAvif opts)
      then (case compressResult w of None \<Rightarrow> None | Some c \<Rightarrow> avifOut c) else None)"

definition derivedWritesOk :: "upload_world \<Rightarrow> compression_options \<Rightarrow> bool" where
  "derivedWritesOk w opts =
     ((webpJob w opts \<noteq> None \<longrightarrow> webpUploadOk w) \<and>
      (avifJob w opts \<noteq> None \<longrightarrow> avifUploadOk w))"

definition writtenKeys :: "upload_event list \<Rightarrow> string list" where
  "writtenKeys tr = concat (map (\<lambda>e. case e of UploadDone k \<Rightarrow> [k] | _ \<Rightarrow> []) tr)"

definition isSuccess :: "'a response \<Rightarrow> bool" where
  "isSuccess resp = (case resp of SuccessResponse _ \<Rightarrow> True | ErrorResponse _ _ \<Rightarrow> False)"

text \<open>
  Scanning a sequence of calls from the left with the keys whose write has resolved so far:
  every record handed to \<^verbatim>\<open>saveImage\<close> refers only to such keys.
\<close>

fun writesPrecedeSave :: "string list \<Rightarrow> upload_event list \<Rightarrow> bool" where
  "writesPrecedeSave written [] = True"
| "writesPrecedeSave written (UploadDone k # tr) = writesPrecedeSave (k # written) tr"
| "writesPrecedeSave written (SaveImage m # tr) =
     (list_all (\<lambda>k. k \<in> set written) (referencedKeys m) \<and> writesPrecedeSave written tr)"
| "writesPrecedeSave written (_ # tr) = writesPrecedeSave written tr"

text \<open>A response whose status is given and lies in the 4xx range.\<close>

definition clientError :: "'a response \<Rightarrow> bool" where
  "clientError resp =
     (case resp of
        ErrorResponse _ (Some status) \<Rightarrow> 400 \<le> status \<and> status < 500
      | _ \<Rightarrow> False)"

text \<open>The slot, URL or size that belongs to a target format, and the format's name.\<close>

definition slotOf :: "target_format \<Rightarrow> 'a variants \<Rightarrow> 'a" where
  "slotOf fmt v = (case fmt of Original \<Rightarrow> original v | Webp \<Rightarrow> webp v | Avif \<Rightarrow> avif v)"

definition formatName :: "target_format \<Rightarrow> string" where
  "formatName fmt = (case fmt of Original \<Rightarrow> ''original'' | Webp \<Rightarrow> ''webp'' | Avif \<Rightarrow> ''avif'')"

text \<open>
  A marker alias: the slot of the target format holds the key of the original although the
  source is not of that format.
\<close>

definition markerAlias :: "image_metadata \<Rightarrow> target_format \<Rightarrow> bool" where
  "markerAlias img fmt =
     (slotOf fmt (paths img) = original (paths img) \<and> format img \<noteq> formatName fmt)"

text \<open>
  The selection of the target format in the words of the specification: an explicit
  request for one of the three formats wins; otherwise the best encoding the client
  accepts, avif before webp before original.
\<close>

definition explicitFormat :: "string option \<Rightarrow> target_format option" where
  "explicitFormat p =
     (case p of
        None \<Rightarrow> None
      | Some s \<Rightarrow>
          if s = ''original'' then Some Original
          else if s = ''webp'' then Some Webp
          else if s = ''avif'' then Some Avif
          else None)"

definition specSelectedFormat :: "services \<Rightarrow> random_request \<Rightarrow> target_format" where
  "specSelectedFormat sv req =
     (case explicitFormat (formatParam req) of
        Some fmt \<Rightarrow> fmt
      | None \<Rightarrow>
          if clientAccepts sv (acceptHeader req) ''image/avif'' then Avif
          else if clientAccepts sv (acceptHeader req) ''image/webp'' then Webp
          else Original)"

text \<open>The plan the handler makes for a record.\<close>

definition planFor :: "services \<Rightarrow> random_request \<Rightarrow> image_metadata \<Rightarrow> serving_plan" where
  "planFor sv req img = servingPlan sv req img (servedUrls sv img)"

section \<open>Sample inputs\<close>

text \<open>
  Concrete services, requests and service answers on which the theorems below are
  instantiated. The sample URL builder gives no URL for a variant whose flag is
  \<^verbatim>\<open>false\<close>, the URL of the stored object for a slot that holds a key of its own, and
  otherwise a transform URL of the original.
\<close>

definition sampleBuildImageUrls ::
  "string \<Rightarrow> image_metadata \<Rightarrow> compression_options \<Rightarrow> string variants" where
  "sampleBuildImageUrls base img opts =
     \<lparr>original = base @ ''/'' @ original (paths img),
      webp =
        (if generateWebp opts = Some False then []
         else if truthy (webp (paths img)) \<and> webp (paths img) \<noteq> original (paths img)
         then base @ ''/'' @ webp (paths img)
         else base @ ''/t/webp/'' @ original (paths img)),
      avif =
        (if generateAvif opts = Some False then []
         else if truthy (avif (paths img)) \<and> avif (paths img) \<noteq> original (paths img)
         then base @ ''/'' @ avif (paths img)
         else base @ ''/t/avif/'' @ original (paths img))\<rparr>"

definition sampleServices :: services where
  "sampleServices =
     \<lparr>parseTags = (\<lambda>_. []),
      parseNumber = (\<lambda>_ d. d),
      isSupportedFormat = (\<lambda>f. f \<in> set [''jpeg'', ''jpg'', ''png'', ''gif'', ''webp'', ''avif'']),
      getContentType = (\<lambda>f. ''image/'' @ f),
      generatePaths =
        (\<lambda>i orient f. \<lparr>original = ''o/'' @ i, webp = ''w/'' @ i, avif = ''a/'' @ i\<rparr>),
      buildImageUrls = sampleBuildImageUrls,
      isMobileDevice = (\<lambda>_. False),
      clientAccepts = (\<lambda>header m. header = Some m),
      R2_PUBLIC_URL = ''r2''\<rparr>"

definition sampleFile :: "nat \<Rightarrow> upload_file" where
  "sampleFile n = \<lparr>fileName = ''cat'', fileSize = n\<rparr>"

definition sampleForm :: "nat \<Rightarrow> upload_form" where
  "sampleForm n =
     \<lparr>imageField = File (sampleFile n), tagsField = None, expiryMinutesField = None,
      compressionOptions = \<lparr>generateWebp = None, generateAvif = None\<rparr>\<rparr>"

definition sampleRequest :: "nat \<Rightarrow> upload_request" where
  "sampleRequest n = \<lparr>contentLength = None, formData = Some (sampleForm n)\<rparr>"

definition sampleInfo :: "string \<Rightarrow> image_info" where
  "sampleInfo fmt = \<lparr>format = fmt, width = 500, height = 800, orientation = ''portrait''\<rparr>"

text \<open>
  A world without faults in which the transcoder produces a webp encoding of 300 bytes and
  no avif encoding.
\<close>

definition sampleWorld :: "string \<Rightarrow> upload_world" where
  "sampleWorld fmt =
     \<lparr>imageInfo = Some (sampleInfo fmt), generatedId = ''id1'', imagesBinding = True,
      compressResult =
        Some \<lparr>webpOut = Some \<lparr>compressedData = ''W'', compressedSize = 300\<rparr>,
              avifOut = None\<rparr>,
      originalUploadOk = True, webpUploadOk = True, avifUploadOk = True,
      saveImageOk = True, clockExpiry = 0, clockUpload = 0\<rparr>"

text \<open>The same world, except that the write of the webp object is rejected.\<close>

definition sampleWorldWebpWriteFails :: upload_world where
  "sampleWorldWebpWriteFails = (sampleWorld ''jpeg'')\<lparr>webpUploadOk := False\<rparr>"

text \<open>
  Services whose \<^verbatim>\<open>parseNumber\<close> reads an expiry of 200000000000 minutes, which lies
  beyond the last valid date.
\<close>

definition sampleServicesFarExpiry :: services where
  "sampleServicesFarExpiry = sampleServices\<lparr>parseNumber := (\<lambda>_ _. 200000000000)\<rparr>"

text \<open>A request that declares one byte more than the maximum.\<close>

definition sampleOversizedRequest :: upload_request where
  "sampleOversizedRequest = \<lparr>contentLength = Some ''73400321'', formData = None\<rparr>"

text \<open>Three expired records; the object store rejects the deletion for the second.\<close>

definition sampleExpired :: "string \<Rightarrow> string \<Rightarrow> image_metadata" where
  "sampleExpired i w =
     \<lparr>format = ''jpeg'', width = 1, height = 1, orientation = ''landscape'',
      imageId = i, originalName = ''cat'', uploadTime = 0, expiryTime = Some 1, tags = [],
      paths = \<lparr>original = ''o/'' @ i, webp = w, avif = []\<rparr>,
      sizes = \<lparr>original = 1, webp = 0, avif = 0\<rparr>\<rparr>"

definition sampleCleanupWorld :: cleanup_world where
  "sampleCleanupWorld =
     \<lparr>expiredImages =
        Some [sampleExpired ''a'' ''w/a'', sampleExpired ''b'' [], sampleExpired ''c'' []],
      deleteManyOk = (\<lambda>i. i \<noteq> 1),
      deleteImageOk = (\<lambda>_. True)\<rparr>"

text \<open>
  A stored record with the given source format, derived slots and size of the original; a
  request with the given \<^verbatim>\<open>format\<close> parameter and \<^verbatim>\<open>Accept\<close> header; a world in
  which that record is selected, the object store holds the listed keys, and every fetch is
  answered by the given response.
\<close>

definition sampleRecord :: "string \<Rightarrow> string \<Rightarrow> string \<Rightarrow> nat \<Rightarrow> image_metadata" where
  "sampleRecord fmt w a n =
     \<lparr>format = fmt, width = 500, height = 800, orientation = ''portrait'',
      imageId = ''x'', originalName = ''cat'', uploadTime = 0, expiryTime = None, tags = [],
      paths = \<lparr>original = ''o/x'', webp = w, avif = a\<rparr>,
      sizes = \<lparr>original = n, webp = 0, avif = 0\<rparr>\<rparr>"

definition sampleRandomRequest :: "string option \<Rightarrow> string option \<Rightarrow> random_request" where
  "sampleRandomRequest fp accept =
     \<lparr>tagsParam = None, excludeParam = None, orientationParam = None, formatParam = fp,
      userAgent = None, acceptHeader = accept\<rparr>"

definition sampleRandomWorld ::
  "image_metadata \<Rightarrow> string list \<Rightarrow> upstream_response \<Rightarrow> random_world" where
  "sampleRandomWorld img keys upstream =
     \<lparr>randomImage = (\<lambda>_. Some (Some img)),
      storageGet = (\<lambda>k. Some (if k \<in> set keys then Some ''bytes'' else None)),
      fetchUpstream = (\<lambda>_. Some upstream)\<rparr>"

definition sampleFilter :: random_filter where
  "sampleFilter = \<lparr>filterTags = None, filterExclude = None, filterOrientation = ''landscape''\<rparr>"

definition upstreamGood :: upstream_response where
  "upstreamGood =
     \<lparr>upstreamOk = True, upstreamBody = Some ''transformed'',
      upstreamContentType = Some ''image/avif''\<rparr>"

definition upstreamNoBody :: upstream_response where
  "upstreamNoBody = \<lparr>upstreamOk = True, upstreamBody = None, upstreamContentType = None\<rparr>"

definition upstreamBad :: upstream_response where
  "upstreamBad = \<lparr>upstreamOk = False, upstreamBody = Some ''error'', upstreamContentType = None\<rparr>"

section \<open>Properties of the cleanup\<close>

lemma cleanupLoop_closed_form:
  "cleanupLoop w i images n tr =
     (n + length (filter (sweepSucceeds w) [i ..< i + length images]),
      tr @ concat (map (\<lambda>(j, img). sweepCalls w j img)
                       (zip [i ..< i + length images] images)))"
proof (induction images arbitrary: i n tr)
  case Nil
  then show ?case by simp
next
  case (Cons img rest)
  have range: "[i ..< i + length (img # rest)] = i # [Suc i ..< Suc i + length rest]"
    by (simp add: upt_rec)
  show ?case
    unfolding range
    by (simp add: Cons.IH sweepCalls_def sweepSucceeds_def Let_def)
qed

text \<open>
  C9. The sweep visits every expired image, whatever happened to the earlier ones: for the
  image at position \<open>j\<close> it first calls \<^verbatim>\<open>deleteMany\<close> on the image's keys and calls
  \<^verbatim>\<open>deleteImage\<close> only after that call has resolved; a rejected call ends that
  iteration only. The response is a success carrying the number of iterations in which both
  calls resolved.
\<close>

theorem cleanup_sweep_order_and_count:
  "expiredImages w = Some images \<Longrightarrow>
   cleanupHandler w =
     (SuccessResponse (length (filter (sweepSucceeds w) [0 ..< length images])),
      concat (map (\<lambda>(j, img). sweepCalls w j img) (zip [0 ..< length images] images)))"
  by (simp add: cleanupHandler_def cleanupLoop_closed_form)

text \<open>
  The sweep over three records when the deletion of the second record's objects is rejected:
  the third record is still deleted and the count is 2.
\<close>

theorem cleanup_sweep_order_and_count_witness:
  "expiredImages sampleCleanupWorld =
     Some [sampleExpired ''a'' ''w/a'', sampleExpired ''b'' [], sampleExpired ''c'' []] \<and>
   cleanupHandler sampleCleanupWorld =
     (SuccessResponse 2,
      [DeleteMany [''o/a'', ''w/a''], DeleteImage ''a'',
       DeleteMany [''o/b''],
       DeleteMany [''o/c''], DeleteImage ''c''])"
proof -
  have e: "expiredImages sampleCleanupWorld =
     Some [sampleExpired ''a'' ''w/a'', sampleExpired ''b'' [], sampleExpired ''c'' []]"
    by (simp add: sampleCleanupWorld_def)
  have r: "[0 ..< length [sampleExpired ''a'' ''w/a'', sampleExpired ''b'' [], sampleExpired ''c'' []]]
     = [0, 1, 2]"
    by (simp add: upt_rec)
  show ?thesis
    using e cleanup_sweep_order_and_count[OF e]
    unfolding r
    by (simp add: sweepSucceeds_def sweepCalls_def keysToDelete_def truthy_def
        sampleCleanupWorld_def sampleExpired_def)
qed

section \<open>Properties of the upload\<close>

lemma accepted_handler:
  "accepted sv w req form file info \<Longrightarrow>
   uploadSingleHandler sv w req =
     (let (resp, tr) = storeImage sv w form file in (resp, ReadFormData # tr))"
  by (simp add: accepted_def uploadSingleHandler_def)

lemma paths_buildMetadata [simp]:
  "paths (buildMetadata sv w form file info p a b e) = p"
  "sizes (buildMetadata sv w form file info p a b e) = \<lparr>original = fileSize file, webp = a, avif = b\<rparr>"
  by (simp_all add: buildMetadata_def Let_def)

lemma resultSizes_buildResult [simp]:
  "resultSizes (buildResult sv opts m) = sizes m"
  by (simp add: buildResult_def Let_def)

lemma storeImage_stored:
  assumes "imageInfo w = Some info" "isSupportedFormat sv (format info)"
  shows "storeImage sv w form file =
     (case storeVariants w file (format info) (compressionOptions form)
             (generatePaths sv (generatedId w) (orientation info) (format info)) of
        (None, tr) \<Rightarrow> (ErrorResponse ''Upload failed'' None, tr)
      | (Some (p, a, b), tr) \<Rightarrow>
          (case computeExpiry sv w form of
             None \<Rightarrow> (ErrorResponse ''Upload failed'' None, tr)
           | Some e \<Rightarrow>
               if \<not> saveImageOk w
               then (ErrorResponse ''Upload failed'' None,
                     tr @ [SaveImage (buildMetadata sv w form file info p a b e)])
               else (SuccessResponse
                       (buildResult sv (compressionOptions form)
                          (buildMetadata sv w form file info p a b e)),
                     tr @ [SaveImage (buildMetadata sv w form file info p a b e),
                           InvalidateCaches])))"
  using assms by (simp add: storeImage_def Let_def split: option.split prod.split)

lemma storeVariants_passThrough:
  "passThrough fmt \<Longrightarrow>
   storeVariants w file fmt opts gp =
     (if \<not> originalUploadOk w then (None, [UploadStart (original gp)])
      else (Some (\<lparr>original = original gp,
                    webp = (if fmt = ''webp'' then original gp else []),
                    avif = (if fmt = ''avif'' then original gp else [])\<rparr>,
                  (if fmt = ''webp'' then fileSize file else 0),
                  (if fmt = ''avif'' then fileSize file else 0)),
            [UploadStart (original gp), UploadDone (original gp)]))"
  by (cases gp) (auto simp add: storeVariants_def passThroughBranch_def passThrough_def Let_def)

lemma storeVariants_marker:
  "\<not> passThrough fmt \<Longrightarrow> \<not> imagesBinding w \<or> fileSize file > CLOUDFLARE_IMAGES_MAX_BYTES \<Longrightarrow>
   storeVariants w file fmt opts gp =
     (if \<not> originalUploadOk w then (None, [UploadStart (original gp)])
      else (Some (\<lparr>original = original gp,
                    webp = (if wanted (generateWebp opts) then original gp else []),
                    avif = (if wanted (generateAvif opts) then original gp else [])\<rparr>,
                  0, 0),
            [UploadStart (original gp), UploadDone (original gp)]))"
  by (cases gp) (auto simp add: storeVariants_def markerBranch_def passThrough_def wanted_def Let_def)

lemma compressBranch_failed:
  "\<not> originalUploadOk w \<Longrightarrow> compressBranch w opts gp p0 = (None, [CompressStart])"
  "originalUploadOk w \<Longrightarrow> compressResult w = None \<Longrightarrow>
   compressBranch w opts gp p0 = (None, [CompressStart, UploadDone (original p0)])"
  by (simp_all add: compressBranch_def)

lemma compressBranch_resolved:
  assumes "originalUploadOk w" "compressResult w = Some c" "webp p0 = []" "avif p0 = []"
  shows "compressBranch w opts gp p0 =
     (if derivedWritesOk w opts then
        (Some (\<lparr>original = original p0,
               webp = (case webpJob w opts of
                         Some _ \<Rightarrow> if truthy (webp gp) then webp gp else original p0
                       | None \<Rightarrow> if wanted (generateWebp opts) then original p0 else []),
               avif = (case avifJob w opts of
                         Some _ \<Rightarrow> if truthy (avif gp) then avif gp else original p0
                       | None \<Rightarrow> if wanted (generateAvif opts) then original p0 else [])\<rparr>,
              (case webpJob w opts of Some x \<Rightarrow> compressedSize x | None \<Rightarrow> 0),
              (case avifJob w opts of Some x \<Rightarrow> compressedSize x | None \<Rightarrow> 0)),
         [CompressStart, UploadDone (original p0), CompressDone]
         @ (case webpJob w opts of Some _ \<Rightarrow> [UploadStart (webp gp)] | None \<Rightarrow> [])
         @ (case avifJob w opts of Some _ \<Rightarrow> [UploadStart (avif gp)] | None \<Rightarrow> [])
         @ (case webpJob w opts of Some _ \<Rightarrow> [UploadDone (webp gp)] | None \<Rightarrow> [])
         @ (case avifJob w opts of Some _ \<Rightarrow> [UploadDone (avif gp)] | None \<Rightarrow> []))
      else
        (None,
         [CompressStart, UploadDone (original p0), CompressDone]
         @ (case webpJob w opts of Some _ \<Rightarrow> [UploadStart (webp gp)] | None \<Rightarrow> [])
         @ (case avifJob w opts of Some _ \<Rightarrow> [UploadStart (avif gp)] | None \<Rightarrow> [])))"
proof -
  have jw: "(if generateWebp opts \<noteq> Some False then webpOut c else None) = webpJob w opts"
    and ja: "(if generateAvif opts \<noteq> Some False then avifOut c else None) = avifJob w opts"
    using assms(2) by (simp_all add: webpJob_def avifJob_def wanted_def)
  show ?thesis
    unfolding compressBranch_def Let_def jw ja
    using assms
    by (cases p0; cases "webpJob w opts"; cases "avifJob w opts")
       (auto simp add: derivedWritesOk_def wanted_def webpJob_def avifJob_def truthy_def
          split: if_splits)
qed

lemma storeVariants_compress:
  "\<not> passThrough fmt \<Longrightarrow> imagesBinding w \<Longrightarrow> fileSize file \<le> CLOUDFLARE_IMAGES_MAX_BYTES \<Longrightarrow>
   storeVariants w file fmt opts gp =
     (fst (compressBranch w opts gp (gp\<lparr>webp := [], avif := []\<rparr>)),
      UploadStart (original gp) # snd (compressBranch w opts gp (gp\<lparr>webp := [], avif := []\<rparr>)))"
  by (simp add: storeVariants_def passThrough_def Let_def split: prod.split)

lemma storeVariants_compress_failed:
  assumes "\<not> passThrough fmt" "imagesBinding w" "fileSize file \<le> CLOUDFLARE_IMAGES_MAX_BYTES"
  shows "\<not> originalUploadOk w \<Longrightarrow>
         storeVariants w file fmt opts gp = (None, [UploadStart (original gp), CompressStart])"
    and "originalUploadOk w \<Longrightarrow> compressResult w = None \<Longrightarrow>
         storeVariants w file fmt opts gp =
           (None, [UploadStart (original gp), CompressStart, UploadDone (original gp)])"
  by (simp_all add: storeVariants_compress[OF assms] compressBranch_failed)

lemma storeVariants_compress_resolved:
  assumes "\<not> passThrough fmt" "imagesBinding w" "fileSize file \<le> CLOUDFLARE_IMAGES_MAX_BYTES"
    and "originalUploadOk w" "compressResult w = Some c"
  shows "storeVariants w file fmt opts gp =
     (if derivedWritesOk w opts then
        (Some (\<lparr>original = original gp,
               webp = (case webpJob w opts of
                         Some _ \<Rightarrow> if truthy (webp gp) then webp gp else original gp
                       | None \<Rightarrow> if wanted (generateWebp opts) then original gp else []),
               avif = (case avifJob w opts of
                         Some _ \<Rightarrow> if truthy (avif gp) then avif gp else original gp
                       | None \<Rightarrow> if wanted (generateAvif opts) then original gp else [])\<rparr>,
              (case webpJob w opts of Some x \<Rightarrow> compressedSize x | None \<Rightarrow> 0),
              (case avifJob w opts of Some x \<Rightarrow> compressedSize x | None \<Rightarrow> 0)),
         [UploadStart (original gp), CompressStart, UploadDone (original gp), CompressDone]
         @ (case webpJob w opts of Some _ \<Rightarrow> [UploadStart (webp gp)] | None \<Rightarrow> [])
         @ (case avifJob w opts of Some _ \<Rightarrow> [UploadStart (avif gp)] | None \<Rightarrow> [])
         @ (case webpJob w opts of Some _ \<Rightarrow> [UploadDone (webp gp)] | None \<Rightarrow> [])
         @ (case avifJob w opts of Some _ \<Rightarrow> [UploadDone (avif gp)] | None \<Rightarrow> []))
      else
        (None,
         [UploadStart (original gp), CompressStart, UploadDone (original gp), CompressDone]
         @ (case webpJob w opts of Some _ \<Rightarrow> [UploadStart (webp gp)] | None \<Rightarrow> [])
         @ (case avifJob w opts of Some _ \<Rightarrow> [UploadStart (avif gp)] | None \<Rightarrow> [])))"
proof -
  obtain o' w' a' where gp: "gp = \<lparr>original = o', webp = w', avif = a'\<rparr>"
    by (cases gp) simp
  show ?thesis
    unfolding storeVariants_compress[OF assms(1,2,3)]
    by (cases "webpJob w opts"; cases "avifJob w opts")
       (simp_all add: compressBranch_resolved[OF assms(4,5)] gp)
qed

lemma trace_readings [simp]:
  "transcoderInvoked (e # tr) = (e = CompressStart \<or> transcoderInvoked tr)"
  "transcoderInvoked [] = False"
  "transcoderInvoked (tr @ tr') = (transcoderInvoked tr \<or> transcoderInvoked tr')"
  "uploadsStarted [] = []"
  "uploadsStarted (tr @ tr') = uploadsStarted tr @ uploadsStarted tr'"
  "uploadsStarted (e # tr) = (case e of UploadStart k \<Rightarrow> [k] | _ \<Rightarrow> []) @ uploadsStarted tr"
  "savedRecords [] = []"
  "savedRecords (tr @ tr') = savedRecords tr @ savedRecords tr'"
  "savedRecords (e # tr) = (case e of SaveImage m \<Rightarrow> [m] | _ \<Rightarrow> []) @ savedRecords tr"
  "writtenKeys [] = []"
  "writtenKeys (tr @ tr') = writtenKeys tr @ writtenKeys tr'"
  "writtenKeys (e # tr) = (case e of UploadDone k \<Rightarrow> [k] | _ \<Rightarrow> []) @ writtenKeys tr"
  by (auto simp add: transcoderInvoked_def uploadsStarted_def savedRecords_def writtenKeys_def)

text \<open>
  C2. An upload whose detected format is gif, webp or avif never calls the transcoder and
  starts exactly one write, that of the original. A record that is saved has the webp
  (avif) slot equal to the original key with the size of the original when the source is
  webp (avif), and every other derived slot empty with size 0; in particular both derived
  slots of a gif are empty with size 0. When the write and the save resolve and the expiry
  asked for is a valid date, the upload succeeds with one such record saved; when the
  expiry is not a valid date, the upload fails and nothing is saved.
\<close>

theorem passthrough_upload:
  assumes "accepted sv w req form file info"
    and "passThrough (format info)"
    and "uploadSingleHandler sv w req = (resp, tr)"
  shows "\<not> transcoderInvoked tr \<and>
         uploadsStarted tr = [originalKey sv w info] \<and>
         (\<forall>m \<in> set (savedRecords tr).
            paths m = \<lparr>original = originalKey sv w info,
                       webp = (if format info = ''webp'' then originalKey sv w info else []),
                       avif = (if format info = ''avif'' then originalKey sv w info else [])\<rparr> \<and>
            sizes m = \<lparr>original = fileSize file,
                       webp = (if format info = ''webp'' then fileSize file else 0),
                       avif = (if format info = ''avif'' then fileSize file else 0)\<rparr>) \<and>
         (originalUploadOk w \<and> expiryInRange sv w form \<and> saveImageOk w \<longrightarrow>
            length (savedRecords tr) = 1 \<and>
            (\<exists>r. resp = SuccessResponse r \<and>
                 resultSizes r = \<lparr>original = fileSize file,
                       webp = (if format info = ''webp'' then fileSize file else 0),
                       avif = (if format info = ''avif'' then fileSize file else 0)\<rparr>)) \<and>
         (\<not> expiryInRange sv w form \<longrightarrow>
            resp = ErrorResponse ''Upload failed'' None \<and> savedRecords tr = [])"
proof -
  have sup: "isSupportedFormat sv (format info)" and inf: "imageInfo w = Some info"
    using assms(1) by (simp_all add: accepted_def)
  note sv = storeVariants_passThrough[OF assms(2)]
  show ?thesis
    using assms(3)
    unfolding accepted_handler[OF assms(1)] storeImage_stored[OF inf sup] sv
    by (cases "originalUploadOk w"; cases "computeExpiry sv w form"; cases "saveImageOk w")
       (auto simp add: originalKey_def expiryInRange_def)
qed

text \<open>
  C3. An upload of a format other than gif, webp, avif for which no transcoder is bound or
  whose size exceeds \<open>CLOUDFLARE_IMAGES_MAX_BYTES\<close> never calls the transcoder and starts
  exactly one write, that of the original. In a record that is saved each wanted derived
  slot equals the original key, each unwanted one is empty, and both derived sizes are 0.
  When the write of the original and the save resolve and the expiry asked for is a valid
  date, the upload succeeds with one such record saved; when the expiry is not a valid
  date, the upload fails and nothing is saved.
\<close>

theorem skipped_transcoding_upload:
  assumes "accepted sv w req form file info"
    and "\<not> passThrough (format info)"
    and "\<not> imagesBinding w \<or> fileSize file > CLOUDFLARE_IMAGES_MAX_BYTES"
    and "uploadSingleHandler sv w req = (resp, tr)"
  shows "\<not> transcoderInvoked tr \<and>
         uploadsStarted tr = [originalKey sv w info] \<and>
         (\<forall>m \<in> set (savedRecords tr).
            original (paths m) = originalKey sv w info \<and>
            webp (paths m) =
              (if wanted (generateWebp (compressionOptions form)) then originalKey sv w info
               else []) \<and>
            avif (paths m) =
              (if wanted (generateAvif (compressionOptions form)) then originalKey sv w info
               else []) \<and>
            webp (sizes m) = 0 \<and> avif (sizes m) = 0) \<and>
         (originalUploadOk w \<and> expiryInRange sv w form \<and> saveImageOk w \<longrightarrow>
            length (savedRecords tr) = 1 \<and>
            (\<exists>r. resp = SuccessResponse r \<and> webp (resultSizes r) = 0 \<and>
                 avif (resultSizes r) = 0)) \<and>
         (\<not> expiryInRange sv w form \<longrightarrow>
            resp = ErrorResponse ''Upload failed'' None \<and> savedRecords tr = [])"
proof -
  have sup: "isSupportedFormat sv (format info)" and inf: "imageInfo w = Some info"
    using assms(1) by (simp_all add: accepted_def)
  note sv = storeVariants_marker[OF assms(2,3)]
  show ?thesis
    using assms(4)
    unfolding accepted_handler[OF assms(1)] storeImage_stored[OF inf sup] sv
    by (cases "originalUploadOk w"; cases "computeExpiry sv w form"; cases "saveImageOk w")
       (auto simp add: originalKey_def expiryInRange_def)
qed

lemma writesPrecedeSave_split:
  "writesPrecedeSave written (pre @ SaveImage m # post) \<Longrightarrow>
   \<forall>k \<in> set (referencedKeys m). k \<in> set written \<or> UploadDone k \<in> set pre"
proof (induction pre arbitrary: written)
  case Nil
  then show ?case by (simp add: list_all_iff)
next
  case (Cons e pre)
  then show ?case by (cases e) fastforce+
qed

lemma storeImage_writes_precede_save:
  "writesPrecedeSave [] (snd (storeImage sv w form file))"
proof -
  consider (none) "imageInfo w = None"
    | (unsupported) info where "imageInfo w = Some info" "\<not> isSupportedFormat sv (format info)"
    | (stored) info where "imageInfo w = Some info" "isSupportedFormat sv (format info)"
    by (cases "imageInfo w") auto
  then show ?thesis
  proof cases
    case none
    then show ?thesis by (simp add: storeImage_def)
  next
    case unsupported
    then show ?thesis by (simp add: storeImage_def)
  next
    case stored
    note si = storeImage_stored[OF stored]
    define opts where "opts = compressionOptions form"
    define gp where "gp = generatePaths sv (generatedId w) (orientation info) (format info)"
    consider (pass) "passThrough (format info)"
      | (marker) "\<not> passThrough (format info)"
          "\<not> imagesBinding w \<or> fileSize file > CLOUDFLARE_IMAGES_MAX_BYTES"
      | (compress) "\<not> passThrough (format info)" "imagesBinding w"
          "fileSize file \<le> CLOUDFLARE_IMAGES_MAX_BYTES"
      by fastforce
    then show ?thesis
    proof cases
      case pass
      show ?thesis
        unfolding si storeVariants_passThrough[OF pass]
        by (cases "computeExpiry sv w form") (simp_all add: referencedKeys_def truthy_def)
    next
      case marker
      show ?thesis
        unfolding si storeVariants_marker[OF marker]
        by (cases "computeExpiry sv w form") (simp_all add: referencedKeys_def truthy_def)
    next
      case compress
      show ?thesis
      proof (cases "originalUploadOk w")
        case False
        then show ?thesis
          unfolding si by (simp add: storeVariants_compress_failed[OF compress])
      next
        case True
        show ?thesis
        proof (cases "compressResult w")
          case None
          then show ?thesis
            unfolding si using True by (simp add: storeVariants_compress_failed[OF compress])
        next
          case (Some c)
          show ?thesis
            unfolding si storeVariants_compress_resolved[OF compress True Some]
            by (cases "webpJob w (compressionOptions form)";
                cases "avifJob w (compressionOptions form)";
                cases "computeExpiry sv w form")
               (simp_all add: referencedKeys_def truthy_def)
        qed
      qed
    qed
  qed
qed

lemmas sample_defs =
  sampleServices_def sampleFile_def sampleForm_def sampleRequest_def sampleInfo_def
  sampleWorld_def

lemma sample_accepted:
  "n \<le> MAX_FILE_SIZE \<Longrightarrow> fmt \<in> set [''jpeg'', ''jpg'', ''png'', ''gif'', ''webp'', ''avif''] \<Longrightarrow>
   accepted sampleServices (sampleWorld fmt) (sampleRequest n) (sampleForm n) (sampleFile n)
     (sampleInfo fmt)"
  by (simp add: accepted_def sample_defs declaredTooLarge_def)

lemma sample_expiry:
  "expiryInRange sampleServices (sampleWorld fmt) (sampleForm n)"
  by (simp add: expiryInRange_def computeExpiry_def sample_defs)

text \<open>
  A webp upload of 1000 bytes without expiry: one write, no transcoding, one record saved
  with the webp slot aliased to the original.
\<close>

theorem passthrough_upload_witness:
  "accepted sampleServices (sampleWorld ''webp'') (sampleRequest 1000) (sampleForm 1000)
     (sampleFile 1000) (sampleInfo ''webp'') \<and>
   passThrough (format (sampleInfo ''webp'')) \<and>
   originalUploadOk (sampleWorld ''webp'') \<and>
   expiryInRange sampleServices (sampleWorld ''webp'') (sampleForm 1000) \<and>
   saveImageOk (sampleWorld ''webp'') \<and>
   \<not> transcoderInvoked (snd (uploadSingleHandler sampleServices (sampleWorld ''webp'') (sampleRequest 1000))) \<and>
   uploadsStarted (snd (uploadSingleHandler sampleServices (sampleWorld ''webp'') (sampleRequest 1000))) = [''o/id1''] \<and>
   length (savedRecords (snd (uploadSingleHandler sampleServices (sampleWorld ''webp'') (sampleRequest 1000)))) = 1 \<and>
   list_all
     (\<lambda>m. paths m = \<lparr>original = ''o/id1'', webp = ''o/id1'', avif = []\<rparr> \<and>
          sizes m = \<lparr>original = 1000, webp = 1000, avif = 0\<rparr>)
     (savedRecords (snd (uploadSingleHandler sampleServices (sampleWorld ''webp'') (sampleRequest 1000))))"
proof -
  have a: "accepted sampleServices (sampleWorld ''webp'') (sampleRequest 1000) (sampleForm 1000)
     (sampleFile 1000) (sampleInfo ''webp'')"
    by (rule sample_accepted) (simp_all add: MAX_FILE_SIZE_def)
  have p: "passThrough (format (sampleInfo ''webp''))"
    by (simp add: passThrough_def sampleInfo_def)
  have ok: "originalUploadOk (sampleWorld ''webp'')" "saveImageOk (sampleWorld ''webp'')"
    by (simp_all add: sampleWorld_def)
  have k: "originalKey sampleServices (sampleWorld ''webp'') (sampleInfo ''webp'') = ''o/id1''"
    "format (sampleInfo ''webp'') = ''webp''" "fileSize (sampleFile 1000) = 1000"
    by (simp_all add: originalKey_def sample_defs)
  show ?thesis
    using a p ok sample_expiry[of "''webp''" 1000]
      passthrough_upload[OF a p surjective_pairing]
    by (simp add: k list_all_iff)
qed

text \<open>
  C8. A request whose \<^verbatim>\<open>Content-Length\<close> parses to more than \<open>MAX_FILE_SIZE\<close> is
  answered with status 413 before any service call, in particular before the form is read.
  An upload that passes the checks and is larger than \<open>CLOUDFLARE_IMAGES_MAX_BYTES\<close> is not
  answered with a 4xx status: the transcoder is not called, the original is the only
  object written, and the upload succeeds with one record saved when the write of the
  original and the save resolve and the expiry asked for is a valid date. For a format
  other than gif, webp, avif a saved record has the original key in its original slot and
  in each wanted derived slot, no key in an unwanted one, and derived sizes 0.
\<close>

theorem declared_length_guard:
  "(contentLength req = Some s \<and> parseInt s = Some n \<and> n > int MAX_FILE_SIZE \<longrightarrow>
      uploadSingleHandler sv w req =
        (ErrorResponse ''File too large. Maximum size is 70MB'' (Some 413), []) \<and>
      clientError (fst (uploadSingleHandler sv w req))) \<and>
   (accepted sv w req form file info \<and> fileSize file > CLOUDFLARE_IMAGES_MAX_BYTES \<longrightarrow>
      \<not> clientError (fst (uploadSingleHandler sv w req)) \<and>
      \<not> transcoderInvoked (snd (uploadSingleHandler sv w req)) \<and>
      uploadsStarted (snd (uploadSingleHandler sv w req)) = [originalKey sv w info] \<and>
      (originalUploadOk w \<and> expiryInRange sv w form \<and> saveImageOk w \<longrightarrow>
         isSuccess (fst (uploadSingleHandler sv w req)) \<and>
         length (savedRecords (snd (uploadSingleHandler sv w req))) = 1) \<and>
      (\<not> passThrough (format info) \<longrightarrow>
         (\<forall>m \<in> set (savedRecords (snd (uploadSingleHandler sv w req))).
            original (paths m) = originalKey sv w info \<and>
            webp (paths m) =
              (if wanted (generateWebp (compressionOptions form)) then originalKey sv w info
               else []) \<and>
            avif (paths m) =
              (if wanted (generateAvif (compressionOptions form)) then originalKey sv w info
               else []) \<and>
            webp (sizes m) = 0 \<and> avif (sizes m) = 0)))"
proof (intro conjI impI)
  assume h: "contentLength req = Some s \<and> parseInt s = Some n \<and> n > int MAX_FILE_SIZE"
  then have "s \<noteq> []" by (auto simp add: parseInt_def)
  with h have "declaredTooLarge (contentLength req)"
    by (simp add: declaredTooLarge_def truthy_def)
  then show "uploadSingleHandler sv w req =
        (ErrorResponse ''File too large. Maximum size is 70MB'' (Some 413), [])"
    by (simp add: uploadSingleHandler_def)
  then show "clientError (fst (uploadSingleHandler sv w req))"
    by (simp add: clientError_def)
next
  assume h: "accepted sv w req form file info \<and> fileSize file > CLOUDFLARE_IMAGES_MAX_BYTES"
  then have acc: "accepted sv w req form file info"
    and big: "fileSize file > CLOUDFLARE_IMAGES_MAX_BYTES" by simp_all
  have sup: "isSupportedFormat sv (format info)" and inf: "imageInfo w = Some info"
    using acc by (simp_all add: accepted_def)
  have sv: "storeVariants w file (format info) opts gp =
     (if \<not> originalUploadOk w then (None, [UploadStart (original gp)])
      else (Some (\<lparr>original = original gp,
                    webp = (if passThrough (format info)
                            then (if format info = ''webp'' then original gp else [])
                            else if wanted (generateWebp opts) then original gp else []),
                    avif = (if passThrough (format info)
                            then (if format info = ''avif'' then original gp else [])
                            else if wanted (generateAvif opts) then original gp else [])\<rparr>,
                  (if format info = ''webp'' then fileSize file else 0),
                  (if format info = ''avif'' then fileSize file else 0)),
            [UploadStart (original gp), UploadDone (original gp)]))" for opts gp
  proof (cases "passThrough (format info)")
    case True
    then show ?thesis by (simp add: storeVariants_passThrough)
  next
    case False
    then have "format info \<noteq> ''webp''" "format info \<noteq> ''avif''"
      by (simp_all add: passThrough_def)
    with False big show ?thesis by (simp add: storeVariants_marker)
  qed
  note run = accepted_handler[OF acc] storeImage_stored[OF inf sup] sv
  show "\<not> clientError (fst (uploadSingleHandler sv w req))"
    unfolding run
    by (cases "computeExpiry sv w form") (simp_all add: clientError_def)
  show "\<not> transcoderInvoked (snd (uploadSingleHandler sv w req))"
    unfolding run by (cases "computeExpiry sv w form") simp_all
  show "uploadsStarted (snd (uploadSingleHandler sv w req)) = [originalKey sv w info]"
    unfolding run by (cases "computeExpiry sv w form") (simp_all add: originalKey_def)
  show "isSuccess (fst (uploadSingleHandler sv w req))"
    if "originalUploadOk w \<and> expiryInRange sv w form \<and> saveImageOk w"
    unfolding run using that
    by (cases "computeExpiry sv w form") (simp_all add: isSuccess_def expiryInRange_def)
  show "length (savedRecords (snd (uploadSingleHandler sv w req))) = 1"
    if "originalUploadOk w \<and> expiryInRange sv w form \<and> saveImageOk w"
    unfolding run using that
    by (cases "computeExpiry sv w form") (simp_all add: expiryInRange_def)
  show "\<forall>m \<in> set (savedRecords (snd (uploadSingleHandler sv w req))).
            original (paths m) = originalKey sv w info \<and>
            webp (paths m) =
              (if wanted (generateWebp (compressionOptions form)) then originalKey sv w info
               else []) \<and>
            avif (paths m) =
              (if wanted (generateAvif (compressionOptions form)) then originalKey sv w info
               else []) \<and>
            webp (sizes m) = 0 \<and> avif (sizes m) = 0"
    if np: "\<not> passThrough (format info)"
  proof -
    from np have "format info \<noteq> ''webp''" "format info \<noteq> ''avif''"
      by (simp_all add: passThrough_def)
    then show ?thesis
      unfolding run using np
      by (cases "computeExpiry sv w form") (simp_all add: originalKey_def)
  qed
qed

text \<open>
  C1, as amended. On the transcoding path (format other than gif, webp, avif, transcoder
  bound, size within \<open>CLOUDFLARE_IMAGES_MAX_BYTES\<close>) the transcoder is called, and the upload
  succeeds exactly when the write of the original resolves, the transcoder call resolves,
  every attempted write of a derived object resolves, the expiry asked for is a valid date
  and the save resolves; otherwise the response is the generic \<^verbatim>\<open>Upload failed\<close>. A
  wanted variant that the transcoder's result does not contain is recovered: in the saved
  record its slot is the original key and its size is 0.
\<close>

theorem transcoding_path_outcome:
  assumes "accepted sv w req form file info"
    and "\<not> passThrough (format info)"
    and "imagesBinding w" and "fileSize file \<le> CLOUDFLARE_IMAGES_MAX_BYTES"
    and "uploadSingleHandler sv w req = (resp, tr)"
    and "opts = compressionOptions form"
  shows "transcoderInvoked tr \<and>
         (isSuccess resp \<longleftrightarrow>
            originalUploadOk w \<and> compressResult w \<noteq> None \<and> derivedWritesOk w opts \<and>
            expiryInRange sv w form \<and> saveImageOk w) \<and>
         (\<not> isSuccess resp \<longrightarrow> resp = ErrorResponse ''Upload failed'' None) \<and>
         (isSuccess resp \<longrightarrow> length (savedRecords tr) = 1) \<and>
         (\<forall>m \<in> set (savedRecords tr).
            (wanted (generateWebp opts) \<and> webpJob w opts = None \<longrightarrow>
               webp (paths m) = originalKey sv w info \<and> webp (sizes m) = 0) \<and>
            (wanted (generateAvif opts) \<and> avifJob w opts = None \<longrightarrow>
               avif (paths m) = originalKey sv w info \<and> avif (sizes m) = 0))"
proof -
  have sup: "isSupportedFormat sv (format info)" and inf: "imageInfo w = Some info"
    using assms(1) by (simp_all add: accepted_def)
  note path = assms(2,3,4)
  note run = accepted_handler[OF assms(1)] storeImage_stored[OF inf sup]
  show ?thesis
  proof (cases "originalUploadOk w")
    case False
    then show ?thesis
      using assms(5) unfolding run
      by (auto simp add: storeVariants_compress_failed[OF path] isSuccess_def)
  next
    case True
    show ?thesis
    proof (cases "compressResult w")
      case None
      then show ?thesis
        using assms(5) True unfolding run
        by (auto simp add: storeVariants_compress_failed[OF path] isSuccess_def)
    next
      case (Some c)
      show ?thesis
        using assms(5) unfolding run storeVariants_compress_resolved[OF path True Some] assms(6)
        by (cases "derivedWritesOk w (compressionOptions form)"; cases "saveImageOk w";
            cases "webpJob w (compressionOptions form)";
            cases "avifJob w (compressionOptions form)";
            cases "computeExpiry sv w form")
           (auto simp add: isSuccess_def originalKey_def expiryInRange_def True Some)
    qed
  qed
qed

lemma handler_writes_precede_save:
  "writesPrecedeSave [] (snd (uploadSingleHandler sv w req))"
proof -
  have "snd (uploadSingleHandler sv w req) = [] \<or>
        snd (uploadSingleHandler sv w req) = [ReadFormData] \<or>
        (\<exists>form file. snd (uploadSingleHandler sv w req)
            = ReadFormData # snd (storeImage sv w form file))"
    by (simp add: uploadSingleHandler_def case_prod_beta split: option.split form_entry.split) blast
  then show ?thesis
    using storeImage_writes_precede_save by auto
qed

lemma faultFree_success:
  assumes "accepted sv w req form file info" "faultFree w" "expiryInRange sv w form"
  shows "isSuccess (fst (uploadSingleHandler sv w req)) \<and>
         length (savedRecords (snd (uploadSingleHandler sv w req))) = 1"
proof -
  have sup: "isSupportedFormat sv (format info)" and inf: "imageInfo w = Some info"
    using assms(1) by (simp_all add: accepted_def)
  from assms(2) obtain c where c: "compressResult w = Some c"
    and ok: "originalUploadOk w" "webpUploadOk w" "avifUploadOk w" "saveImageOk w"
    by (auto simp add: faultFree_def)
  from assms(3) obtain e where e: "computeExpiry sv w form = Some e"
    by (auto simp add: expiryInRange_def)
  note run = accepted_handler[OF assms(1)] storeImage_stored[OF inf sup]
  consider (pass) "passThrough (format info)"
    | (marker) "\<not> passThrough (format info)"
        "\<not> imagesBinding w \<or> fileSize file > CLOUDFLARE_IMAGES_MAX_BYTES"
    | (compress) "\<not> passThrough (format info)" "imagesBinding w"
        "fileSize file \<le> CLOUDFLARE_IMAGES_MAX_BYTES"
    by fastforce
  then show ?thesis
  proof cases
    case pass
    show ?thesis
      unfolding run storeVariants_passThrough[OF pass] using ok by (simp add: isSuccess_def e)
  next
    case marker
    show ?thesis
      unfolding run storeVariants_marker[OF marker] using ok by (simp add: isSuccess_def e)
  next
    case compress
    have "derivedWritesOk w (compressionOptions form)"
      using ok by (simp add: derivedWritesOk_def)
    then show ?thesis
      unfolding run storeVariants_compress_resolved[OF compress ok(1) c] using ok
      by (cases "webpJob w (compressionOptions form)";
          cases "avifJob w (compressionOptions form)") (simp_all add: isSuccess_def e)
  qed
qed

text \<open>
  C6. In every run of the upload handler, each key a record handed to
  \<^verbatim>\<open>saveImage\<close> refers to (the original and every non-empty derived slot) has a
  write that resolved earlier in the run. In a run without faults of an upload that passes
  the checks and asks for no expiry or a valid one, the record is saved once and the upload
  succeeds.
\<close>

theorem metadata_saved_after_writes:
  "(\<forall>pre m post.
      snd (uploadSingleHandler sv w req) = pre @ SaveImage m # post \<longrightarrow>
      (\<forall>k \<in> set (referencedKeys m). UploadDone k \<in> set pre)) \<and>
   (accepted sv w req form file info \<and> faultFree w \<and> expiryInRange sv w form \<longrightarrow>
      isSuccess (fst (uploadSingleHandler sv w req)) \<and>
      length (savedRecords (snd (uploadSingleHandler sv w req))) = 1)"
proof (intro conjI allI impI)
  fix pre m post
  assume "snd (uploadSingleHandler sv w req) = pre @ SaveImage m # post"
  then have "writesPrecedeSave [] (pre @ SaveImage m # post)"
    using handler_writes_precede_save[of sv w req] by simp
  from writesPrecedeSave_split[OF this]
  show "\<forall>k \<in> set (referencedKeys m). UploadDone k \<in> set pre" by simp
next
  assume "accepted sv w req form file info \<and> faultFree w \<and> expiryInRange sv w form"
  then show "isSuccess (fst (uploadSingleHandler sv w req))"
    and "length (savedRecords (snd (uploadSingleHandler sv w req))) = 1"
    using faultFree_success by blast+
qed

lemma sample_jpeg_run:
  "snd (uploadSingleHandler sampleServices (sampleWorld ''jpeg'') (sampleRequest 1000)) =
     [ReadFormData, UploadStart ''o/id1'', CompressStart, UploadDone ''o/id1'', CompressDone,
      UploadStart ''w/id1'', UploadDone ''w/id1'']
     @ SaveImage (buildMetadata sampleServices (sampleWorld ''jpeg'') (sampleForm 1000)
          (sampleFile 1000) (sampleInfo ''jpeg'')
          \<lparr>original = ''o/id1'', webp = ''w/id1'', avif = ''o/id1''\<rparr> 300 0 None)
     # [InvalidateCaches]"
  by (simp add: uploadSingleHandler_def storeImage_def storeVariants_def compressBranch_def
      computeExpiry_def declaredTooLarge_def sample_defs MAX_FILE_SIZE_def
      CLOUDFLARE_IMAGES_MAX_BYTES_def truthy_def Let_def)

text \<open>
  The run of a jpeg of 1000 bytes: both referenced keys are written before the save.
\<close>

theorem metadata_saved_after_writes_witness:
  "accepted sampleServices (sampleWorld ''jpeg'') (sampleRequest 1000) (sampleForm 1000)
     (sampleFile 1000) (sampleInfo ''jpeg'') \<and>
   faultFree (sampleWorld ''jpeg'') \<and>
   expiryInRange sampleServices (sampleWorld ''jpeg'') (sampleForm 1000) \<and>
   isSuccess (fst (uploadSingleHandler sampleServices (sampleWorld ''jpeg'') (sampleRequest 1000))) \<and>
   snd (uploadSingleHandler sampleServices (sampleWorld ''jpeg'') (sampleRequest 1000)) =
     [ReadFormData, UploadStart ''o/id1'', CompressStart, UploadDone ''o/id1'', CompressDone,
      UploadStart ''w/id1'', UploadDone ''w/id1'']
     @ SaveImage (buildMetadata sampleServices (sampleWorld ''jpeg'') (sampleForm 1000)
          (sampleFile 1000) (sampleInfo ''jpeg'')
          \<lparr>original = ''o/id1'', webp = ''w/id1'', avif = ''o/id1''\<rparr> 300 0 None)
     # [InvalidateCaches] \<and>
   list_all
     (\<lambda>k. UploadDone k \<in> set [ReadFormData, UploadStart ''o/id1'', CompressStart,
        UploadDone ''o/id1'', CompressDone, UploadStart ''w/id1'', UploadDone ''w/id1''])
     (referencedKeys (buildMetadata sampleServices (sampleWorld ''jpeg'') (sampleForm 1000)
          (sampleFile 1000) (sampleInfo ''jpeg'')
          \<lparr>original = ''o/id1'', webp = ''w/id1'', avif = ''o/id1''\<rparr> 300 0 None))"
proof -
  have a: "accepted sampleServices (sampleWorld ''jpeg'') (sampleRequest 1000) (sampleForm 1000)
     (sampleFile 1000) (sampleInfo ''jpeg'')"
    by (rule sample_accepted) (simp_all add: MAX_FILE_SIZE_def)
  have f: "faultFree (sampleWorld ''jpeg'')"
    by (simp add: faultFree_def sampleWorld_def)
  have k: "referencedKeys (buildMetadata sampleServices (sampleWorld ''jpeg'') (sampleForm 1000)
          (sampleFile 1000) (sampleInfo ''jpeg'')
          \<lparr>original = ''o/id1'', webp = ''w/id1'', avif = ''o/id1''\<rparr> 300 0 None)
        = [''o/id1'', ''w/id1'', ''o/id1'']"
    by (simp add: referencedKeys_def truthy_def)
  note inst = metadata_saved_after_writes[of sampleServices "sampleWorld ''jpeg''"
      "sampleRequest 1000" "sampleForm 1000" "sampleFile 1000" "sampleInfo ''jpeg''"]
  note x = sample_expiry[of "''jpeg''" 1000]
  from inst a f x have "isSuccess (fst (uploadSingleHandler sampleServices (sampleWorld ''jpeg'') (sampleRequest 1000)))"
    by blast
  moreover from inst sample_jpeg_run
  have "\<forall>k \<in> set (referencedKeys (buildMetadata sampleServices (sampleWorld ''jpeg'') (sampleForm 1000)
          (sampleFile 1000) (sampleInfo ''jpeg'')
          \<lparr>original = ''o/id1'', webp = ''w/id1'', avif = ''o/id1''\<rparr> 300 0 None)).
      UploadDone k \<in> set [ReadFormData, UploadStart ''o/id1'', CompressStart,
        UploadDone ''o/id1'', CompressDone, UploadStart ''w/id1'', UploadDone ''w/id1'']"
    by blast
  ultimately show ?thesis using a f x sample_jpeg_run by (simp add: list_all_iff)
qed

lemma parseInt_sample: "parseInt ''73400321'' = Some 73400321"
  by (simp add: parseInt_def isWhiteSpace_def isDigit_def digitsValue_def)

text \<open>
  A declared length of 73400321 bytes is rejected; a png of 11 MiB is stored without
  transcoding.
\<close>

theorem declared_length_guard_witness:
  "contentLength sampleOversizedRequest = Some ''73400321'' \<and>
   parseInt ''73400321'' = Some 73400321 \<and> 73400321 > int MAX_FILE_SIZE \<and>
   uploadSingleHandler sampleServices (sampleWorld ''png'') sampleOversizedRequest =
     (ErrorResponse ''File too large. Maximum size is 70MB'' (Some 413), []) \<and>
   accepted sampleServices (sampleWorld ''png'') (sampleRequest 11534336) (sampleForm 11534336)
     (sampleFile 11534336) (sampleInfo ''png'') \<and>
   fileSize (sampleFile 11534336) > CLOUDFLARE_IMAGES_MAX_BYTES \<and>
   \<not> passThrough (format (sampleInfo ''png'')) \<and>
   \<not> transcoderInvoked
       (snd (uploadSingleHandler sampleServices (sampleWorld ''png'') (sampleRequest 11534336))) \<and>
   uploadsStarted
       (snd (uploadSingleHandler sampleServices (sampleWorld ''png'') (sampleRequest 11534336)))
     = [''o/id1''] \<and>
   expiryInRange sampleServices (sampleWorld ''png'') (sampleForm 11534336) \<and>
   isSuccess (fst (uploadSingleHandler sampleServices (sampleWorld ''png'') (sampleRequest 11534336))) \<and>
   length (savedRecords
       (snd (uploadSingleHandler sampleServices (sampleWorld ''png'') (sampleRequest 11534336)))) = 1"
proof -
  have h1: "contentLength sampleOversizedRequest = Some ''73400321'' \<and>
    parseInt ''73400321'' = Some 73400321 \<and> 73400321 > int MAX_FILE_SIZE"
    by (simp add: sampleOversizedRequest_def parseInt_sample MAX_FILE_SIZE_def)
  have a: "accepted sampleServices (sampleWorld ''png'') (sampleRequest 11534336)
     (sampleForm 11534336) (sampleFile 11534336) (sampleInfo ''png'')"
    by (rule sample_accepted) (simp_all add: MAX_FILE_SIZE_def)
  have big: "fileSize (sampleFile 11534336) > CLOUDFLARE_IMAGES_MAX_BYTES"
    by (simp add: sampleFile_def CLOUDFLARE_IMAGES_MAX_BYTES_def)
  have np: "\<not> passThrough (format (sampleInfo ''png''))"
    by (simp add: passThrough_def sampleInfo_def)
  have ok: "originalUploadOk (sampleWorld ''png'') \<and> saveImageOk (sampleWorld ''png'')"
    by (simp add: sampleWorld_def)
  have k: "originalKey sampleServices (sampleWorld ''png'') (sampleInfo ''png'') = ''o/id1''"
    by (simp add: originalKey_def sample_defs)
  note x = sample_expiry[of "''png''" 11534336]
  show ?thesis
    using h1 a big np ok x
      declared_length_guard[of sampleOversizedRequest "''73400321''" 73400321 sampleServices
        "sampleWorld ''png''"]
      declared_length_guard[of "sampleRequest 11534336" _ _ sampleServices
        "sampleWorld ''png''" "sampleForm 11534336" "sampleFile 11534336" "sampleInfo ''png''"]
    unfolding k by blast
qed

text \<open>
  A png of 11 MiB with both variants wanted: both slots are the original key, sizes 0.
\<close>

theorem skipped_transcoding_upload_witness:
  "accepted sampleServices (sampleWorld ''png'') (sampleRequest 11534336) (sampleForm 11534336)
     (sampleFile 11534336) (sampleInfo ''png'') \<and>
   \<not> passThrough (format (sampleInfo ''png'')) \<and>
   fileSize (sampleFile 11534336) > CLOUDFLARE_IMAGES_MAX_BYTES \<and>
   originalUploadOk (sampleWorld ''png'') \<and>
   expiryInRange sampleServices (sampleWorld ''png'') (sampleForm 11534336) \<and>
   saveImageOk (sampleWorld ''png'') \<and>
   \<not> transcoderInvoked
       (snd (uploadSingleHandler sampleServices (sampleWorld ''png'') (sampleRequest 11534336))) \<and>
   list_all
     (\<lambda>m. webp (paths m) = ''o/id1'' \<and> avif (paths m) = ''o/id1'' \<and>
          webp (sizes m) = 0 \<and> avif (sizes m) = 0)
     (savedRecords
       (snd (uploadSingleHandler sampleServices (sampleWorld ''png'') (sampleRequest 11534336)))) \<and>
   length (savedRecords
       (snd (uploadSingleHandler sampleServices (sampleWorld ''png'') (sampleRequest 11534336)))) = 1"
proof -
  have a: "accepted sampleServices (sampleWorld ''png'') (sampleRequest 11534336)
     (sampleForm 11534336) (sampleFile 11534336) (sampleInfo ''png'')"
    by (rule sample_accepted) (simp_all add: MAX_FILE_SIZE_def)
  have big: "fileSize (sampleFile 11534336) > CLOUDFLARE_IMAGES_MAX_BYTES"
    by (simp add: sampleFile_def CLOUDFLARE_IMAGES_MAX_BYTES_def)
  have np: "\<not> passThrough (format (sampleInfo ''png''))"
    by (simp add: passThrough_def sampleInfo_def)
  have ok: "originalUploadOk (sampleWorld ''png'') \<and> saveImageOk (sampleWorld ''png'')"
    by (simp add: sampleWorld_def)
  have w: "wanted (generateWebp (compressionOptions (sampleForm 11534336)))"
    "wanted (generateAvif (compressionOptions (sampleForm 11534336)))"
    by (simp_all add: wanted_def sampleForm_def)
  have k: "originalKey sampleServices (sampleWorld ''png'') (sampleInfo ''png'') = ''o/id1''"
    by (simp add: originalKey_def sample_defs)
  show ?thesis
    using a big np ok sample_expiry[of "''png''" 11534336]
      skipped_transcoding_upload[OF a np disjI2[OF big] surjective_pairing]
    by (simp add: w k list_all_iff)
qed

text \<open>
  A jpeg of 1000 bytes for which the transcoder produces webp only: the upload succeeds and
  the avif slot is the marker alias with size 0. The same upload with an expiry of
  200000000000 minutes fails although no service call is rejected.
\<close>

theorem transcoding_path_outcome_witness:
  "accepted sampleServices (sampleWorld ''jpeg'') (sampleRequest 1000) (sampleForm 1000)
     (sampleFile 1000) (sampleInfo ''jpeg'') \<and>
   \<not> passThrough (format (sampleInfo ''jpeg'')) \<and>
   imagesBinding (sampleWorld ''jpeg'') \<and>
   fileSize (sampleFile 1000) \<le> CLOUDFLARE_IMAGES_MAX_BYTES \<and>
   expiryInRange sampleServices (sampleWorld ''jpeg'') (sampleForm 1000) \<and>
   isSuccess (fst (uploadSingleHandler sampleServices (sampleWorld ''jpeg'') (sampleRequest 1000))) \<and>
   accepted sampleServicesFarExpiry (sampleWorld ''jpeg'') (sampleRequest 1000) (sampleForm 1000)
     (sampleFile 1000) (sampleInfo ''jpeg'') \<and>
   \<not> expiryInRange sampleServicesFarExpiry (sampleWorld ''jpeg'') (sampleForm 1000) \<and>
   \<not> isSuccess
       (fst (uploadSingleHandler sampleServicesFarExpiry (sampleWorld ''jpeg'') (sampleRequest 1000))) \<and>
   list_all (\<lambda>m. avif (paths m) = ''o/id1'' \<and> avif (sizes m) = 0)
     (savedRecords
       (snd (uploadSingleHandler sampleServices (sampleWorld ''jpeg'') (sampleRequest 1000)))) \<and>
   length (savedRecords
       (snd (uploadSingleHandler sampleServices (sampleWorld ''jpeg'') (sampleRequest 1000)))) = 1"
proof -
  have a: "accepted sampleServices (sampleWorld ''jpeg'') (sampleRequest 1000)
     (sampleForm 1000) (sampleFile 1000) (sampleInfo ''jpeg'')"
    by (rule sample_accepted) (simp_all add: MAX_FILE_SIZE_def)
  have small: "fileSize (sampleFile 1000) \<le> CLOUDFLARE_IMAGES_MAX_BYTES"
    by (simp add: sampleFile_def CLOUDFLARE_IMAGES_MAX_BYTES_def)
  have np: "\<not> passThrough (format (sampleInfo ''jpeg''))"
    by (simp add: passThrough_def sampleInfo_def)
  have ib: "imagesBinding (sampleWorld ''jpeg'')"
    by (simp add: sampleWorld_def)
  have facts: "originalUploadOk (sampleWorld ''jpeg'')" "saveImageOk (sampleWorld ''jpeg'')"
    "compressResult (sampleWorld ''jpeg'') \<noteq> None"
    "derivedWritesOk (sampleWorld ''jpeg'') (compressionOptions (sampleForm 1000))"
    "wanted (generateAvif (compressionOptions (sampleForm 1000)))"
    "avifJob (sampleWorld ''jpeg'') (compressionOptions (sampleForm 1000)) = None"
    "originalKey sampleServices (sampleWorld ''jpeg'') (sampleInfo ''jpeg'') = ''o/id1''"
    by (simp_all add: sample_defs derivedWritesOk_def webpJob_def avifJob_def wanted_def
        originalKey_def)
  have a': "accepted sampleServicesFarExpiry (sampleWorld ''jpeg'') (sampleRequest 1000)
     (sampleForm 1000) (sampleFile 1000) (sampleInfo ''jpeg'')"
    using a by (simp add: accepted_def sampleServicesFarExpiry_def)
  have far: "\<not> expiryInRange sampleServicesFarExpiry (sampleWorld ''jpeg'') (sampleForm 1000)"
    by (simp add: expiryInRange_def computeExpiry_def sampleServicesFarExpiry_def
        MAX_TIME_VALUE_def sample_defs)
  have fails: "\<not> isSuccess
       (fst (uploadSingleHandler sampleServicesFarExpiry (sampleWorld ''jpeg'') (sampleRequest 1000)))"
    using transcoding_path_outcome[OF a' np ib small surjective_pairing refl] far by blast
  note x = sample_expiry[of "''jpeg''" 1000]
  show ?thesis
    using a np ib small x a' far fails
      transcoding_path_outcome[OF a np ib small surjective_pairing refl]
    by (simp add: facts list_all_iff)
qed

text \<open>
  C1 as stated fails: on the transcoding path, with the original written, the transcoder
  resolved and the save available, a rejected write of the webp object makes the whole
  upload fail with \<^verbatim>\<open>Upload failed\<close>; no record is saved.
\<close>

theorem derived_write_failure_counterexample:
  "accepted sampleServices sampleWorldWebpWriteFails (sampleRequest 1000) (sampleForm 1000)
     (sampleFile 1000) (sampleInfo ''jpeg'') \<and>
   \<not> passThrough (format (sampleInfo ''jpeg'')) \<and>
   imagesBinding sampleWorldWebpWriteFails \<and>
   fileSize (sampleFile 1000) \<le> CLOUDFLARE_IMAGES_MAX_BYTES \<and>
   originalUploadOk sampleWorldWebpWriteFails \<and>
   saveImageOk sampleWorldWebpWriteFails \<and>
   compressResult sampleWorldWebpWriteFails \<noteq> None \<and>
   \<not> webpUploadOk sampleWorldWebpWriteFails \<and>
   uploadSingleHandler sampleServices sampleWorldWebpWriteFails (sampleRequest 1000) =
     (ErrorResponse ''Upload failed'' None,
      [ReadFormData, UploadStart ''o/id1'', CompressStart, UploadDone ''o/id1'', CompressDone,
       UploadStart ''w/id1''])"
  by (simp add: uploadSingleHandler_def storeImage_def storeVariants_def compressBranch_def
      accepted_def passThrough_def declaredTooLarge_def sample_defs
      sampleWorldWebpWriteFails_def MAX_FILE_SIZE_def CLOUDFLARE_IMAGES_MAX_BYTES_def
      truthy_def Let_def)

section \<open>Properties of the retrieval\<close>

lemma randomHandler_found:
  "randomImage w (requestFilter sv req) = Some (Some img) \<Longrightarrow>
   randomHandler sv w req =
     (fst (servePlan w (planFor sv req img)),
      GetRandomImage (requestFilter sv req) # snd (servePlan w (planFor sv req img)))"
  by (simp add: randomHandler_def planFor_def Let_def case_prod_beta)

lemma servePlan_direct:
  "directKey plan = Some k \<Longrightarrow>
   snd (servePlan w plan) = [StorageGet k]"
  by (simp add: servePlan_def split: option.split)

lemma servePlan_proxy:
  "directKey plan = None \<Longrightarrow>
   snd (servePlan w plan) = [Fetch (targetUrl plan)]"
  by (simp add: servePlan_def split: option.split)

lemma negotiateFormat_spec:
  "negotiateFormat sv req = specSelectedFormat sv req"
  by (cases "formatParam req")
     (simp_all add: negotiateFormat_def specSelectedFormat_def explicitFormat_def getBestFormat_def)

text \<open>
  C10. A \<^verbatim>\<open>format\<close> parameter that is none of \<^verbatim>\<open>original\<close>, \<^verbatim>\<open>webp\<close>,
  \<^verbatim>\<open>avif\<close> (the empty string included) changes nothing: the handler answers and calls
  the services exactly as for the same request without the parameter.
\<close>

theorem unknown_format_param_ignored:
  assumes "formatParam req = Some s"
    and "s \<noteq> ''original''" and "s \<noteq> ''webp''" and "s \<noteq> ''avif''"
  shows "randomHandler sv w req = randomHandler sv w (req\<lparr>formatParam := None\<rparr>)"
proof -
  have f: "requestFilter sv (req\<lparr>formatParam := None\<rparr>) = requestFilter sv req"
    by (simp add: requestFilter_def)
  have n: "negotiateFormat sv (req\<lparr>formatParam := None\<rparr>) = negotiateFormat sv req"
    using assms by (simp add: negotiateFormat_def)
  have p: "servingPlan sv (req\<lparr>formatParam := None\<rparr>) img urls = servingPlan sv req img urls"
    for img urls
    by (simp add: servingPlan_def n)
  show ?thesis
    unfolding randomHandler_def f p by (rule refl)
qed

text \<open>
  The parameter \<^verbatim>\<open>format=png\<close> is ignored.
\<close>

theorem unknown_format_param_ignored_witness:
  "formatParam (sampleRandomRequest (Some ''png'') (Some ''image/webp'')) = Some ''png'' \<and>
   ''png'' \<noteq> ''original'' \<and> ''png'' \<noteq> ''webp'' \<and> ''png'' \<noteq> ''avif'' \<and>
   randomHandler sampleServices
     (sampleRandomWorld (sampleRecord ''jpeg'' ''w/x'' [] 1000) [''o/x'', ''w/x''] upstreamGood)
     (sampleRandomRequest (Some ''png'') (Some ''image/webp'')) =
   randomHandler sampleServices
     (sampleRandomWorld (sampleRecord ''jpeg'' ''w/x'' [] 1000) [''o/x'', ''w/x''] upstreamGood)
     (sampleRandomRequest None (Some ''image/webp''))"
proof -
  have p: "formatParam (sampleRandomRequest (Some ''png'') (Some ''image/webp'')) = Some ''png''"
    by (simp add: sampleRandomRequest_def)
  have r: "(sampleRandomRequest (Some ''png'') (Some ''image/webp''))\<lparr>formatParam := None\<rparr>
      = sampleRandomRequest None (Some ''image/webp'')"
    by (simp add: sampleRandomRequest_def)
  show ?thesis
    using p unknown_format_param_ignored[OF p, of sampleServices
      "sampleRandomWorld (sampleRecord ''jpeg'' ''w/x'' [] 1000) [''o/x'', ''w/x''] upstreamGood"]
    by (simp add: r)
qed

text \<open>
  C5. For the record that was selected, the handler serves according to this plan: for a
  gif the plan of the target format \<open>Original\<close> (with the content type of gif), whatever the
  request says; otherwise the plan of the format selected as the specification words it,
  the explicit request if it names one of the three formats, else avif, webp or original in
  this order of preference according to what the client accepts.
\<close>

theorem format_selection:
  assumes "randomImage w (requestFilter sv req) = Some (Some img)"
  shows "planFor sv req img =
           (if format img = ''gif''
            then (resolveSlot sv img (servedUrls sv img) Original)
                   \<lparr>contentTypeFallback := ''image/gif''\<rparr>
            else resolveSlot sv img (servedUrls sv img) (specSelectedFormat sv req)) \<and>
         randomHandler sv w req =
           (fst (servePlan w (planFor sv req img)),
            GetRandomImage (requestFilter sv req) # snd (servePlan w (planFor sv req img)))"
  using randomHandler_found[OF assms]
  by (simp add: planFor_def servingPlan_def negotiateFormat_spec resolveSlot_def)

lemma sample_services_sel [simp]:
  "clientAccepts sampleServices header m = (header = Some m)"
  "getContentType sampleServices f = ''image/'' @ f"
  "buildImageUrls sampleServices = sampleBuildImageUrls"
  "R2_PUBLIC_URL sampleServices = ''r2''"
  "parseTags sampleServices p = []"
  "isMobileDevice sampleServices ua = False"
  by (simp_all add: sampleServices_def)

lemma sample_request_sel [simp]:
  "formatParam (sampleRandomRequest fp accept) = fp"
  "acceptHeader (sampleRandomRequest fp accept) = accept"
  "tagsParam (sampleRandomRequest fp accept) = None"
  "excludeParam (sampleRandomRequest fp accept) = None"
  "orientationParam (sampleRandomRequest fp accept) = None"
  "userAgent (sampleRandomRequest fp accept) = None"
  by (simp_all add: sampleRandomRequest_def)

lemma sample_record_sel [simp]:
  "format (sampleRecord fmt w a n) = fmt"
  "paths (sampleRecord fmt w a n) = \<lparr>original = ''o/x'', webp = w, avif = a\<rparr>"
  "sizes (sampleRecord fmt w a n) = \<lparr>original = n, webp = 0, avif = 0\<rparr>"
  by (simp_all add: sampleRecord_def)

lemma sample_world_sel [simp]:
  "randomImage (sampleRandomWorld img keys up) flt = Some (Some img)"
  "storageGet (sampleRandomWorld img keys up) k = Some (if k \<in> set keys then Some ''bytes'' else None)"
  "fetchUpstream (sampleRandomWorld img keys up) u = Some up"
  by (simp_all add: sampleRandomWorld_def)

lemma sample_filter [simp]:
  "requestFilter sampleServices (sampleRandomRequest fp accept) = sampleFilter"
  by (simp add: requestFilter_def sampleFilter_def)

lemma sample_urls:
  "servedUrls sampleServices (sampleRecord fmt w a n) =
     \<lparr>original = ''r2/o/x'',
      webp = (if w = [] \<and> n \<le> CLOUDFLARE_IMAGES_MAX_BYTES then []
              else if w \<noteq> [] \<and> w \<noteq> ''o/x'' then ''r2/'' @ w else ''r2/t/webp/o/x''),
      avif = (if a = [] \<and> n \<le> CLOUDFLARE_IMAGES_MAX_BYTES then []
              else if a \<noteq> [] \<and> a \<noteq> ''o/x'' then ''r2/'' @ a else ''r2/t/avif/o/x'')\<rparr>"
  by (auto simp add: servedUrls_def sampleBuildImageUrls_def truthy_def)

lemma sample_plan_gif:
  "planFor sampleServices (sampleRandomRequest (Some ''avif'') (Some ''image/avif''))
     (sampleRecord ''gif'' [] [] 1000) =
   \<lparr>targetUrl = ''r2/o/x'', r2Key = Some ''o/x'', contentTypeFallback = ''image/gif''\<rparr>"
  by (simp add: planFor_def servingPlan_def sample_urls)

lemma sample_plan_png:
  "planFor sampleServices (sampleRandomRequest None (Some ''image/webp''))
     (sampleRecord ''png'' ''w/x'' ''a/x'' 1000) =
   \<lparr>targetUrl = ''r2/w/x'', r2Key = Some ''w/x'', contentTypeFallback = ''image/webp''\<rparr>"
  by (simp add: planFor_def servingPlan_def negotiateFormat_def getBestFormat_def
      resolveSlot_def sample_urls truthy_def)

text \<open>
  A gif requested as avif by a client that accepts avif is served as the stored original; a
  png without explicit format is served as webp to a client that accepts webp only.
\<close>

theorem format_selection_witness:
  "randomImage (sampleRandomWorld (sampleRecord ''gif'' [] [] 1000) [''o/x''] upstreamGood)
     (requestFilter sampleServices (sampleRandomRequest (Some ''avif'') (Some ''image/avif'')))
     = Some (Some (sampleRecord ''gif'' [] [] 1000)) \<and>
   randomHandler sampleServices
     (sampleRandomWorld (sampleRecord ''gif'' [] [] 1000) [''o/x''] upstreamGood)
     (sampleRandomRequest (Some ''avif'') (Some ''image/avif'')) =
     (SuccessResponse \<lparr>responseBody = ''bytes'', responseContentType = ''image/gif''\<rparr>,
      [GetRandomImage sampleFilter, StorageGet ''o/x'']) \<and>
   randomImage (sampleRandomWorld (sampleRecord ''png'' ''w/x'' ''a/x'' 1000) [''w/x''] upstreamGood)
     (requestFilter sampleServices (sampleRandomRequest None (Some ''image/webp'')))
     = Some (Some (sampleRecord ''png'' ''w/x'' ''a/x'' 1000)) \<and>
   randomHandler sampleServices
     (sampleRandomWorld (sampleRecord ''png'' ''w/x'' ''a/x'' 1000) [''w/x''] upstreamGood)
     (sampleRandomRequest None (Some ''image/webp'')) =
     (SuccessResponse \<lparr>responseBody = ''bytes'', responseContentType = ''image/webp''\<rparr>,
      [GetRandomImage sampleFilter, StorageGet ''w/x''])"
proof -
  have g: "randomImage (sampleRandomWorld (sampleRecord ''gif'' [] [] 1000) [''o/x''] upstreamGood)
     (requestFilter sampleServices (sampleRandomRequest (Some ''avif'') (Some ''image/avif'')))
     = Some (Some (sampleRecord ''gif'' [] [] 1000))"
    by simp
  have p: "randomImage (sampleRandomWorld (sampleRecord ''png'' ''w/x'' ''a/x'' 1000) [''w/x''] upstreamGood)
     (requestFilter sampleServices (sampleRandomRequest None (Some ''image/webp'')))
     = Some (Some (sampleRecord ''png'' ''w/x'' ''a/x'' 1000))"
    by simp
  from format_selection[OF g]
  have 1: "randomHandler sampleServices
     (sampleRandomWorld (sampleRecord ''gif'' [] [] 1000) [''o/x''] upstreamGood)
     (sampleRandomRequest (Some ''avif'') (Some ''image/avif'')) =
     (SuccessResponse \<lparr>responseBody = ''bytes'', responseContentType = ''image/gif''\<rparr>,
      [GetRandomImage sampleFilter, StorageGet ''o/x''])"
    by (simp add: sample_plan_gif servePlan_def directKey_def truthy_def)
  from format_selection[OF p]
  have 2: "randomHandler sampleServices
     (sampleRandomWorld (sampleRecord ''png'' ''w/x'' ''a/x'' 1000) [''w/x''] upstreamGood)
     (sampleRandomRequest None (Some ''image/webp'')) =
     (SuccessResponse \<lparr>responseBody = ''bytes'', responseContentType = ''image/webp''\<rparr>,
      [GetRandomImage sampleFilter, StorageGet ''w/x''])"
    by (simp add: sample_plan_png servePlan_def directKey_def truthy_def)
  from g 1 p 2 show ?thesis by blast
qed

lemma resolveSlot_r2Key:
  "fmt \<noteq> Original \<Longrightarrow>
   r2Key (resolveSlot sv img urls fmt) =
     (if \<not> truthy (slotOf fmt urls) then Some (original (paths img))
      else if truthy (slotOf fmt (paths img)) \<and> \<not> markerAlias img fmt
      then Some (slotOf fmt (paths img))
      else None)"
  "fmt \<noteq> Original \<Longrightarrow>
   targetUrl (resolveSlot sv img urls fmt) =
     (if truthy (slotOf fmt urls) then slotOf fmt urls else original urls)"
  by (cases fmt; simp add: resolveSlot_def slotOf_def markerAlias_def formatName_def Let_def)+

text \<open>
  C4, as amended. For a record that is not a gif and a selected target format webp or avif,
  the handler looks first at the URL that \<^verbatim>\<open>buildImageUrls\<close> gives for that format.
  With no such URL it reads the original from the object store and makes no fetch. With a
  URL, an empty slot and a marker alias are served by a fetch of that URL without any read
  of the object store, and a slot with a key of its own is read from the object store
  without any fetch.
\<close>

theorem slot_resolution:
  assumes "randomImage w (requestFilter sv req) = Some (Some img)"
    and "format img \<noteq> ''gif''"
    and "negotiateFormat sv req = fmt" and "fmt \<noteq> Original"
    and "url = slotOf fmt (servedUrls sv img)" and "slot = slotOf fmt (paths img)"
    and "tr = snd (randomHandler sv w req)"
  shows "(\<not> truthy url \<and> truthy (original (paths img)) \<longrightarrow>
            tr = [GetRandomImage (requestFilter sv req), StorageGet (original (paths img))]) \<and>
         (truthy url \<and> \<not> truthy slot \<longrightarrow>
            tr = [GetRandomImage (requestFilter sv req), Fetch url]) \<and>
         (truthy url \<and> truthy slot \<and> markerAlias img fmt \<longrightarrow>
            tr = [GetRandomImage (requestFilter sv req), Fetch url]) \<and>
         (truthy url \<and> truthy slot \<and> \<not> markerAlias img fmt \<longrightarrow>
            tr = [GetRandomImage (requestFilter sv req), StorageGet slot])"
proof -
  have plan: "planFor sv req img = resolveSlot sv img (servedUrls sv img) fmt"
    using assms(2,3) by (simp add: planFor_def servingPlan_def)
  have key: "directKey (planFor sv req img) =
      (if \<not> truthy url then (if truthy (original (paths img)) then Some (original (paths img)) else None)
       else if truthy slot \<and> \<not> markerAlias img fmt then Some slot else None)"
    using assms(4) by (simp add: plan directKey_def resolveSlot_r2Key assms(5,6))
  have url: "truthy url \<Longrightarrow> targetUrl (planFor sv req img) = url"
    using assms(4) by (simp add: plan resolveSlot_r2Key assms(5))
  have tr: "tr = GetRandomImage (requestFilter sv req) # snd (servePlan w (planFor sv req img))"
    by (simp add: assms(7) randomHandler_found[OF assms(1)])
  show ?thesis
    unfolding tr
    by (auto simp add: key url servePlan_direct servePlan_proxy)
qed

lemma sample_handler:
  "randomHandler sampleServices (sampleRandomWorld img keys up) (sampleRandomRequest fp ac) =
     (fst (servePlan (sampleRandomWorld img keys up)
             (planFor sampleServices (sampleRandomRequest fp ac) img)),
      GetRandomImage sampleFilter
      # snd (servePlan (sampleRandomWorld img keys up)
               (planFor sampleServices (sampleRandomRequest fp ac) img)))"
  using randomHandler_found[of "sampleRandomWorld img keys up" sampleServices
      "sampleRandomRequest fp ac" img]
  by simp

lemma sample_selected:
  "negotiateFormat sampleServices (sampleRandomRequest (Some ''webp'') ac) = Webp"
  "negotiateFormat sampleServices (sampleRandomRequest (Some ''avif'') ac) = Avif"
  by (simp_all add: negotiateFormat_def)

lemma sample_plan_empty_avif_large:
  "planFor sampleServices (sampleRandomRequest (Some ''avif'') None)
     (sampleRecord ''jpeg'' ''w/x'' [] 11534336) =
   \<lparr>targetUrl = ''r2/t/avif/o/x'', r2Key = None, contentTypeFallback = ''image/avif''\<rparr>"
  by (simp add: planFor_def servingPlan_def negotiateFormat_def resolveSlot_def sample_urls
      truthy_def CLOUDFLARE_IMAGES_MAX_BYTES_def)

text \<open>
  C4 as stated fails for an empty slot: for a jpeg of 11 MiB with an empty avif slot the
  handler asks the URL builder for an avif URL (the original is larger than
  \<open>CLOUDFLARE_IMAGES_MAX_BYTES\<close>), and when the builder gives one, the handler fetches it
  instead of reading the original from the object store, where it is present.
\<close>

theorem empty_slot_proxied_counterexample:
  "avif (paths (sampleRecord ''jpeg'' ''w/x'' [] 11534336)) = [] \<and>
   format (sampleRecord ''jpeg'' ''w/x'' [] 11534336) \<noteq> ''gif'' \<and>
   negotiateFormat sampleServices (sampleRandomRequest (Some ''avif'') None) = Avif \<and>
   storageGet
     (sampleRandomWorld (sampleRecord ''jpeg'' ''w/x'' [] 11534336) [''o/x'', ''w/x''] upstreamGood)
     (original (paths (sampleRecord ''jpeg'' ''w/x'' [] 11534336))) = Some (Some ''bytes'') \<and>
   randomHandler sampleServices
     (sampleRandomWorld (sampleRecord ''jpeg'' ''w/x'' [] 11534336) [''o/x'', ''w/x''] upstreamGood)
     (sampleRandomRequest (Some ''avif'') None) =
     (SuccessResponse \<lparr>responseBody = ''transformed'', responseContentType = ''image/avif''\<rparr>,
      [GetRandomImage sampleFilter, Fetch ''r2/t/avif/o/x''])"
  by (simp add: sample_selected sample_handler sample_plan_empty_avif_large servePlan_def
      directKey_def upstreamGood_def truthy_def)

lemma sample_plan_marker_webp:
  "planFor sampleServices (sampleRandomRequest (Some ''webp'') None)
     (sampleRecord ''jpeg'' ''o/x'' ''a/x'' 1000) =
   \<lparr>targetUrl = ''r2/t/webp/o/x'', r2Key = None, contentTypeFallback = ''image/webp''\<rparr>"
  by (simp add: planFor_def servingPlan_def negotiateFormat_def resolveSlot_def sample_urls
      truthy_def CLOUDFLARE_IMAGES_MAX_BYTES_def)

text \<open>
  A jpeg whose webp slot is a marker alias and whose avif slot is a key of its own: webp is
  fetched from the transform URL, avif is read from the object store.
\<close>

theorem slot_resolution_witness:
  "randomImage
     (sampleRandomWorld (sampleRecord ''jpeg'' ''o/x'' ''a/x'' 1000) [''o/x'', ''a/x''] upstreamGood)
     (requestFilter sampleServices (sampleRandomRequest (Some ''webp'') None))
     = Some (Some (sampleRecord ''jpeg'' ''o/x'' ''a/x'' 1000)) \<and>
   format (sampleRecord ''jpeg'' ''o/x'' ''a/x'' 1000) \<noteq> ''gif'' \<and>
   negotiateFormat sampleServices (sampleRandomRequest (Some ''webp'') None) = Webp \<and>
   truthy (slotOf Webp (servedUrls sampleServices (sampleRecord ''jpeg'' ''o/x'' ''a/x'' 1000))) \<and>
   truthy (slotOf Webp (paths (sampleRecord ''jpeg'' ''o/x'' ''a/x'' 1000))) \<and>
   markerAlias (sampleRecord ''jpeg'' ''o/x'' ''a/x'' 1000) Webp \<and>
   snd (randomHandler sampleServices
     (sampleRandomWorld (sampleRecord ''jpeg'' ''o/x'' ''a/x'' 1000) [''o/x'', ''a/x''] upstreamGood)
     (sampleRandomRequest (Some ''webp'') None)) =
     [GetRandomImage sampleFilter, Fetch ''r2/t/webp/o/x''] \<and>
   negotiateFormat sampleServices (sampleRandomRequest (Some ''avif'') None) = Avif \<and>
   truthy (slotOf Avif (servedUrls sampleServices (sampleRecord ''jpeg'' ''o/x'' ''a/x'' 1000))) \<and>
   truthy (slotOf Avif (paths (sampleRecord ''jpeg'' ''o/x'' ''a/x'' 1000))) \<and>
   \<not> markerAlias (sampleRecord ''jpeg'' ''o/x'' ''a/x'' 1000) Avif \<and>
   snd (randomHandler sampleServices
     (sampleRandomWorld (sampleRecord ''jpeg'' ''o/x'' ''a/x'' 1000) [''o/x'', ''a/x''] upstreamGood)
     (sampleRandomRequest (Some ''avif'') None)) =
     [GetRandomImage sampleFilter, StorageGet ''a/x'']"
proof -
  let ?rec = "sampleRecord ''jpeg'' ''o/x'' ''a/x'' 1000"
  let ?w = "sampleRandomWorld ?rec [''o/x'', ''a/x''] upstreamGood"
  have found: "randomImage ?w (requestFilter sampleServices (sampleRandomRequest fp None))
     = Some (Some ?rec)" for fp
    by simp
  have ng: "format ?rec \<noteq> ''gif''" by simp
  have urls: "webp (servedUrls sampleServices ?rec) = ''r2/t/webp/o/x''"
    "avif (servedUrls sampleServices ?rec) = ''r2/a/x''"
    by (simp_all add: sample_urls)
  have slots: "slotOf Webp (paths ?rec) = ''o/x''" "slotOf Avif (paths ?rec) = ''a/x''"
    by (simp_all add: slotOf_def)
  have mk: "markerAlias ?rec Webp" "\<not> markerAlias ?rec Avif"
    by (simp_all add: markerAlias_def slotOf_def formatName_def)
  have t: "truthy ''r2/t/webp/o/x''" "truthy ''r2/a/x''" "truthy ''o/x''" "truthy ''a/x''"
    by (simp_all add: truthy_def)
  note w = slot_resolution[OF found ng sample_selected(1) _ refl refl refl]
  note a = slot_resolution[OF found ng sample_selected(2) _ refl refl refl]
  have 1: "snd (randomHandler sampleServices ?w (sampleRandomRequest (Some ''webp'') None)) =
     [GetRandomImage sampleFilter, Fetch ''r2/t/webp/o/x'']"
    using w mk t by (simp add: urls slotOf_def)
  have 2: "snd (randomHandler sampleServices ?w (sampleRandomRequest (Some ''avif'') None)) =
     [GetRandomImage sampleFilter, StorageGet ''a/x'']"
    using a mk t by (simp add: urls slotOf_def)
  show ?thesis
    using found[of "Some ''webp''"] ng mk 1 2 t
    by (simp add: sample_selected urls slotOf_def)
qed

text \<open>
  C7, as amended. The response carries the status 404 exactly when no record matches, or
  the key the plan resolves to is absent from the object store, or the fetch of the
  transform URL is answered by a response that is not ok or has no body.
\<close>

theorem not_found_cases:
  "(\<exists>msg. fst (randomHandler sv w req) = ErrorResponse msg (Some 404)) \<longleftrightarrow>
     randomImage w (requestFilter sv req) = Some None \<or>
     (\<exists>img k. randomImage w (requestFilter sv req) = Some (Some img) \<and>
        directKey (planFor sv req img) = Some k \<and> storageGet w k = Some None) \<or>
     (\<exists>img upstream. randomImage w (requestFilter sv req) = Some (Some img) \<and>
        directKey (planFor sv req img) = None \<and>
        fetchUpstream w (targetUrl (planFor sv req img)) = Some upstream \<and>
        (\<not> upstreamOk upstream \<or> upstreamBody upstream = None))"
proof (cases "randomImage w (requestFilter sv req)")
  case None
  then show ?thesis by (simp add: randomHandler_def)
next
  case (Some found)
  show ?thesis
  proof (cases found)
    case None
    with Some show ?thesis by (simp add: randomHandler_def)
  next
    case (Some img)
    with \<open>randomImage w (requestFilter sv req) = Some found\<close>
    have f: "randomImage w (requestFilter sv req) = Some (Some img)" by simp
    show ?thesis
    proof (cases "directKey (planFor sv req img)")
      case None
      then show ?thesis
        unfolding randomHandler_found[OF f] f
        by (cases "fetchUpstream w (targetUrl (planFor sv req img))")
           (auto simp add: servePlan_def)
    next
      case (Some k)
      then show ?thesis
        unfolding randomHandler_found[OF f] f
        by (cases "storageGet w k") (auto simp add: servePlan_def split: option.split)
    qed
  qed
qed

text \<open>
  An upstream response that is not ok gives 404; a good one does not.
\<close>

theorem not_found_cases_witness:
  "randomImage
     (sampleRandomWorld (sampleRecord ''jpeg'' ''o/x'' ''a/x'' 1000) [''o/x'', ''a/x''] upstreamBad)
     (requestFilter sampleServices (sampleRandomRequest (Some ''webp'') None))
     = Some (Some (sampleRecord ''jpeg'' ''o/x'' ''a/x'' 1000)) \<and>
   directKey (planFor sampleServices (sampleRandomRequest (Some ''webp'') None)
     (sampleRecord ''jpeg'' ''o/x'' ''a/x'' 1000)) = None \<and>
   fetchUpstream
     (sampleRandomWorld (sampleRecord ''jpeg'' ''o/x'' ''a/x'' 1000) [''o/x'', ''a/x''] upstreamBad)
     (targetUrl (planFor sampleServices (sampleRandomRequest (Some ''webp'') None)
        (sampleRecord ''jpeg'' ''o/x'' ''a/x'' 1000))) = Some upstreamBad \<and>
   \<not> upstreamOk upstreamBad \<and>
   (\<exists>msg. fst (randomHandler sampleServices
      (sampleRandomWorld (sampleRecord ''jpeg'' ''o/x'' ''a/x'' 1000) [''o/x'', ''a/x''] upstreamBad)
      (sampleRandomRequest (Some ''webp'') None)) = ErrorResponse msg (Some 404)) \<and>
   \<not> (\<exists>msg. fst (randomHandler sampleServices
      (sampleRandomWorld (sampleRecord ''jpeg'' ''o/x'' ''a/x'' 1000) [''o/x'', ''a/x''] upstreamGood)
      (sampleRandomRequest (Some ''webp'') None)) = ErrorResponse msg (Some 404))"
proof -
  let ?rec = "sampleRecord ''jpeg'' ''o/x'' ''a/x'' 1000"
  let ?req = "sampleRandomRequest (Some ''webp'') None"
  have found: "randomImage (sampleRandomWorld ?rec [''o/x'', ''a/x''] up)
     (requestFilter sampleServices ?req) = Some (Some ?rec)" for up
    by simp
  have key: "directKey (planFor sampleServices ?req ?rec) = None"
    by (simp add: sample_plan_marker_webp directKey_def)
  have fetch: "fetchUpstream (sampleRandomWorld ?rec [''o/x'', ''a/x''] up)
     (targetUrl (planFor sampleServices ?req ?rec)) = Some up" for up
    by simp
  have bad: "\<not> upstreamOk upstreamBad" by (simp add: upstreamBad_def)
  have good: "upstreamOk upstreamGood" "upstreamBody upstreamGood \<noteq> None"
    by (simp_all add: upstreamGood_def)
  have 1: "\<exists>msg. fst (randomHandler sampleServices
      (sampleRandomWorld ?rec [''o/x'', ''a/x''] upstreamBad) ?req) = ErrorResponse msg (Some 404)"
    using not_found_cases[of sampleServices
        "sampleRandomWorld ?rec [''o/x'', ''a/x''] upstreamBad" ?req]
      found[of upstreamBad] key fetch[of upstreamBad] bad
    by blast
  have 2: "\<not> (\<exists>msg. fst (randomHandler sampleServices
      (sampleRandomWorld ?rec [''o/x'', ''a/x''] upstreamGood) ?req) = ErrorResponse msg (Some 404))"
    using not_found_cases[of sampleServices
        "sampleRandomWorld ?rec [''o/x'', ''a/x''] upstreamGood" ?req]
      found[of upstreamGood] key fetch[of upstreamGood] good
    by auto
  from found[of upstreamBad] key fetch[of upstreamBad] bad 1 2
  show ?thesis by blast
qed

text \<open>
  C7 as stated fails: a record is found, no key is read from the object store, the upstream
  response is ok, but it has no body, and the handler answers 404.
\<close>

theorem bodyless_upstream_counterexample:
  "randomImage
     (sampleRandomWorld (sampleRecord ''jpeg'' ''o/x'' ''a/x'' 1000) [''o/x'', ''a/x''] upstreamNoBody)
     (requestFilter sampleServices (sampleRandomRequest (Some ''webp'') None))
     = Some (Some (sampleRecord ''jpeg'' ''o/x'' ''a/x'' 1000)) \<and>
   directKey (planFor sampleServices (sampleRandomRequest (Some ''webp'') None)
     (sampleRecord ''jpeg'' ''o/x'' ''a/x'' 1000)) = None \<and>
   fetchUpstream
     (sampleRandomWorld (sampleRecord ''jpeg'' ''o/x'' ''a/x'' 1000) [''o/x'', ''a/x''] upstreamNoBody)
     (targetUrl (planFor sampleServices (sampleRandomRequest (Some ''webp'') None)
        (sampleRecord ''jpeg'' ''o/x'' ''a/x'' 1000))) = Some upstreamNoBody \<and>
   upstreamOk upstreamNoBody \<and>
   randomHandler sampleServices
     (sampleRandomWorld (sampleRecord ''jpeg'' ''o/x'' ''a/x'' 1000) [''o/x'', ''a/x''] upstreamNoBody)
     (sampleRandomRequest (Some ''webp'') None) =
     (ErrorResponse ''Image file not found'' (Some 404),
      [GetRandomImage sampleFilter, Fetch ''r2/t/webp/o/x''])"
  by (simp add: sample_handler sample_plan_marker_webp servePlan_def directKey_def
      upstreamNoBody_def)

end
